theory Spec2Isabelle
  imports Main "HOL-Library.Sublist"
begin

section \<open>Subscription and entitlement engine of the barber backend\<close>

text \<open>
  The definitions below follow \<^verbatim>\<open>services/subscriptionService.js\<close> (pricing, subscription
  store, entitlement state, enforcement gates) and \<^verbatim>\<open>controllers/subscriptionController.js\<close>
  (renewal and the payment rails). Timestamps are milliseconds since the epoch, as
  \<^verbatim>\<open>Date.getTime()\<close> gives them; a column that is NULL (or a value that
  \<^verbatim>\<open>parsePgTimestamp\<close> maps to null) is \<open>None\<close>. Every clock reading
  (\<^verbatim>\<open>new Date()\<close>, SQL \<^verbatim>\<open>NOW()\<close>) is an explicit argument.
\<close>

subsection \<open>Pricing tiers\<close>

record limits =
  shops :: int
  professionals :: int

record plan_tier =
  tier_code :: string
  tier_name :: string
  priceDop :: int
  tier_limits :: limits

text \<open>The tier names are kept in ASCII (the source spells them with an accent).\<close>

definition PLAN_TIERS :: "plan_tier list" where
  "PLAN_TIERS =
    [ \<lparr>tier_code = ''basic_1'', tier_name = ''Basico 1'', priceDop = 1000,
        tier_limits = \<lparr>shops = 1, professionals = 2\<rparr>\<rparr>,
      \<lparr>tier_code = ''basic_2'', tier_name = ''Basico 2'', priceDop = 1500,
        tier_limits = \<lparr>shops = 1, professionals = 3\<rparr>\<rparr>,
      \<lparr>tier_code = ''pro'', tier_name = ''Pro'', priceDop = 2000,
        tier_limits = \<lparr>shops = 2, professionals = 6\<rparr>\<rparr>,
      \<lparr>tier_code = ''premium'', tier_name = ''Premium'', priceDop = 2500,
        tier_limits = \<lparr>shops = 3, professionals = 12\<rparr>\<rparr> ]"

record usage =
  shopCount :: int
  professionalCount :: int
  barbersCount :: int
  ownerCountsAsProfessional :: bool

record normalized_usage =
  norm_shopCount :: int
  norm_professionalCount :: int

record tier_selection =
  sel_tier :: "plan_tier option"
  sel_isOverLimit :: bool
  sel_overage :: limits
  sel_normalized :: normalized_usage

text \<open>
  \<^verbatim>\<open>selectTierForUsage\<close>. The counts are the integers \<^verbatim>\<open>computeOwnerUsageCounts\<close>
  produces, so \<^verbatim>\<open>Number(x) || 0\<close> is the identity; \<^verbatim>\<open>PLAN_TIERS[PLAN_TIERS.length - 1]\<close>
  is \<open>last PLAN_TIERS\<close> (the table is not empty).
\<close>

definition selectTierForUsage :: "usage \<Rightarrow> tier_selection" where
  "selectTierForUsage u =
    (let shops_n = max 0 (shopCount u);
         pros = max 0 (professionalCount u);
         tier = find (\<lambda>t. shops_n \<le> shops (tier_limits t) \<and> pros \<le> professionals (tier_limits t))
                  PLAN_TIERS;
         maxTier = last PLAN_TIERS;
         overShops = max 0 (shops_n - shops (tier_limits maxTier));
         overProfessionals = max 0 (pros - professionals (tier_limits maxTier));
         isOverLimit = (tier = None \<and> (overShops > 0 \<or> overProfessionals > 0))
     in \<lparr>sel_tier = tier,
         sel_isOverLimit = isOverLimit,
         sel_overage = \<lparr>shops = overShops, professionals = overProfessionals\<rparr>,
         sel_normalized = \<lparr>norm_shopCount = shops_n, norm_professionalCount = pros\<rparr>\<rparr>)"

record pricing =
  pr_currency :: string
  pr_tier :: "plan_tier option"
  pr_total :: "int option"
  pr_isOverLimit :: bool
  pr_overage :: limits

text \<open>\<^verbatim>\<open>computeMonthlyPriceDop\<close>; \<^verbatim>\<open>usage.tier || PLAN_TIERS[0]\<close> is the \<open>case\<close> below.\<close>

definition computeMonthlyPriceDop :: "usage \<Rightarrow> pricing" where
  "computeMonthlyPriceDop u =
    (let sel = selectTierForUsage u in
     if sel_tier sel = None \<and> sel_isOverLimit sel then
       \<lparr>pr_currency = ''DOP'', pr_tier = None, pr_total = None, pr_isOverLimit = True,
        pr_overage = sel_overage sel\<rparr>
     else
       (let tier = (case sel_tier sel of Some t \<Rightarrow> t | None \<Rightarrow> hd PLAN_TIERS) in
        \<lparr>pr_currency = ''DOP'',
         pr_tier = Some \<lparr>tier_code = tier_code tier, tier_name = tier_name tier,
                          priceDop = priceDop tier, tier_limits = tier_limits tier\<rparr>,
         pr_total = Some (priceDop tier),
         pr_isOverLimit = False,
         pr_overage = sel_overage sel\<rparr>))"

text \<open>A tier accommodates a usage when both counts are within its limits.\<close>

definition accommodates :: "plan_tier \<Rightarrow> usage \<Rightarrow> bool" where
  "accommodates t u \<longleftrightarrow>
     shopCount u \<le> shops (tier_limits t) \<and> professionalCount u \<le> professionals (tier_limits t)"

subsection \<open>Subscription rows and the entitlement state\<close>

record subscription =
  owner_id :: nat
  status :: string
  current_period_start :: "int option"
  current_period_end :: "int option"
  grace_period_end :: "int option"
  last_alert_sent_at :: "int option"
  billing_provider :: "string option"
  plan_code :: "string option"
  paypal_subscription_id :: "string option"
  paypal_subscription_status :: "string option"
  pending_plan_code :: "string option"
  pending_plan_effective_at :: "int option"

record subscription_state =
  st_now :: int
  periodEnd :: "int option"
  graceEnd :: "int option"
  isActive :: bool
  isInGrace :: bool
  isBlocked :: bool

text \<open>
  \<^verbatim>\<open>parsePgTimestamp\<close>: a NULL column is null; the driver hands every other
  timestamp over as a valid \<^verbatim>\<open>Date\<close>.
\<close>

definition parsePgTimestamp :: "int option \<Rightarrow> int option" where
  "parsePgTimestamp v = (case v of None \<Rightarrow> None | Some ms \<Rightarrow> Some ms)"

text \<open>\<^verbatim>\<open>computeSubscriptionState\<close>; \<open>now\<close> is its \<^verbatim>\<open>new Date()\<close>.\<close>

definition computeSubscriptionState :: "int \<Rightarrow> subscription \<Rightarrow> subscription_state" where
  "computeSubscriptionState now subscriptionRow =
    (let pe = parsePgTimestamp (current_period_end subscriptionRow);
         ge = parsePgTimestamp (grace_period_end subscriptionRow);
         active = (case pe of None \<Rightarrow> False | Some t \<Rightarrow> now \<le> t);
         inGrace = (\<not> active \<and> (case ge of None \<Rightarrow> False | Some g \<Rightarrow> now \<le> g));
         blocked = (\<not> active \<and> \<not> inGrace)
     in \<lparr>st_now = now, periodEnd = pe, graceEnd = ge,
         isActive = active, isInGrace = inGrace, isBlocked = blocked\<rparr>)"

subsection \<open>JavaScript string helpers\<close>

text \<open>
  \<^verbatim>\<open>a || b\<close> on values that are a string, null or undefined: the empty string is falsy.
\<close>

definition truthy :: "string option \<Rightarrow> bool" where
  "truthy v \<longleftrightarrow> (case v of None \<Rightarrow> False | Some s \<Rightarrow> s \<noteq> [])"

definition js_or :: "string option \<Rightarrow> string option \<Rightarrow> string option" where
  "js_or a b = (if truthy a then a else b)"

text \<open>\<^verbatim>\<open>String(v || '')\<close>.\<close>

definition str_or_empty :: "string option \<Rightarrow> string" where
  "str_or_empty v = (case v of None \<Rightarrow> [] | Some s \<Rightarrow> s)"

text \<open>\<^verbatim>\<open>toUpperCase\<close>, \<^verbatim>\<open>toLowerCase\<close> and \<^verbatim>\<open>trim\<close> on ASCII text.\<close>

definition upper_char :: "char \<Rightarrow> char" where
  "upper_char c =
    (let n = (of_char c :: nat) in if 97 \<le> n \<and> n \<le> 122 then char_of (n - 32) else c)"

definition lower_char :: "char \<Rightarrow> char" where
  "lower_char c =
    (let n = (of_char c :: nat) in if 65 \<le> n \<and> n \<le> 90 then char_of (n + 32) else c)"

definition toUpperCase :: "string \<Rightarrow> string" where
  "toUpperCase s = map upper_char s"

definition toLowerCase :: "string \<Rightarrow> string" where
  "toLowerCase s = map lower_char s"

definition is_space :: "char \<Rightarrow> bool" where
  "is_space c \<longleftrightarrow> (let n = (of_char c :: nat) in n = 32 \<or> (9 \<le> n \<and> n \<le> 13))"

definition trim :: "string \<Rightarrow> string" where
  "trim s = rev (dropWhile is_space (rev (dropWhile is_space s)))"

text \<open>\<^verbatim>\<open>s.includes(t)\<close>; \<^verbatim>\<open>s.startsWith(t)\<close> is \<open>prefix t s\<close>.\<close>

fun str_includes :: "string \<Rightarrow> string \<Rightarrow> bool" where
  "str_includes [] t = (t = [])"
| "str_includes (c # cs) t = (prefix t (c # cs) \<or> str_includes cs t)"

definition normalizeRole :: "string option \<Rightarrow> string" where
  "normalizeRole role = toLowerCase (str_or_empty role)"

subsection \<open>Tables\<close>

text \<open>
  A date text of a provider payload, as \<^verbatim>\<open>new Date(text)\<close> reads it: the instant it
  denotes, or an invalid date. An absent or empty text is \<open>None\<close> at the field.
\<close>

datatype date_text = DateText int | BadDateText

record amount_obj =
  am_total :: "string option"
  am_value :: "string option"
  am_amount :: "string option"
  am_currency :: "string option"
  am_currency_code :: "string option"
  am_currencyCode :: "string option"

record resource =
  billing_agreement_id :: "string option"
  res_id :: "string option"
  subscription_id :: "string option"
  sale_id :: "string option"
  transaction_id :: "string option"
  res_status :: "string option"
  res_amount :: "amount_obj option"
  res_time :: "date_text option"
  res_create_time :: "date_text option"

record webhook_event =
  event_type :: "string option"
  event_resource :: "resource option"

record capture =
  capture_id :: "string option"
  capture_amount_value :: "string option"
  capture_currency_code :: "string option"
  capture_create_time :: "date_text option"

text \<open>
  The body of the provider's answer to an order capture: its status, its message and
  \<^verbatim>\<open>purchase_units[0].payments.captures[0]\<close>.
\<close>

record order_data =
  ord_status :: "string option"
  ord_message :: "string option"
  ord_capture :: "capture option"

text \<open>
  The \<^verbatim>\<open>metadata\<close> blob of a payment row, one shape per rail. Amounts are kept as the
  decimal text the provider or the report carries; \<^verbatim>\<open>Number(amount)\<close> is not interpreted.
\<close>

datatype metadata =
    WebhookMeta string string webhook_event
  | OrderMeta string "string option" "order_data option"
  | ManualMeta nat "string option" "string option" "nat option"

record payment =
  pay_owner_id :: nat
  pay_provider :: string
  pay_status :: string
  pay_amount :: "string option"
  pay_currency :: "string option"
  provider_payment_id :: "string option"
  pay_metadata :: metadata
  paid_at :: int

record report =
  rep_id :: nat
  rep_owner_id :: nat
  rep_amount :: "string option"
  rep_currency :: "string option"
  reference_text :: "string option"
  proof_url :: "string option"
  rep_status :: string
  approved_by :: "nat option"
  rejected_by :: "nat option"
  decided_at :: "int option"

text \<open>
  A notification row. The message text depends only on the block date
  (\<^verbatim>\<open>graceEnd.toISOString().slice(0, 10)\<close>), kept here as the UTC day number.
\<close>

record notification =
  notif_user_id :: nat
  notif_type :: string
  notif_title :: string
  notif_block_date :: "int option"
  notif_status :: string
  payload_periodEnd :: "int option"
  payload_graceEnd :: "int option"
  notif_created_at :: int

record shop =
  shop_id :: nat
  shop_owner_id :: "nat option"
  shop_deleted_at :: "int option"

record user =
  user_id :: nat
  user_role :: "string option"
  user_shop_id :: "nat option"
  user_deleted_at :: "int option"

text \<open>
  The database. The bookkeeping columns \<^verbatim>\<open>created_at\<close> and \<^verbatim>\<open>updated_at\<close> of
  subscriptions, payments and reports are left out. A transaction that is rolled back
  returns the database it started from.
\<close>

record db =
  subscriptions :: "subscription list"
  payments :: "payment list"
  manual_payment_reports :: "report list"
  notifications :: "notification list"
  barber_shops :: "shop list"
  users :: "user list"

text \<open>\<^verbatim>\<open>UPDATE subscriptions SET ... WHERE owner_id = $1\<close>.\<close>

definition update_subscriptions :: "nat \<Rightarrow> (subscription \<Rightarrow> subscription) \<Rightarrow> db \<Rightarrow> db" where
  "update_subscriptions ownerId f d =
     d\<lparr>subscriptions := map (\<lambda>s. if owner_id s = ownerId then f s else s) (subscriptions d)\<rparr>"

text \<open>\<^verbatim>\<open>SELECT * FROM subscriptions WHERE owner_id = $1 LIMIT 1\<close>.\<close>

definition select_subscription :: "db \<Rightarrow> nat \<Rightarrow> subscription option" where
  "select_subscription d ownerId = find (\<lambda>s. owner_id s = ownerId) (subscriptions d)"

text \<open>The UTC calendar day of an instant: \<^verbatim>\<open>toISOString().slice(0, 10)\<close>.\<close>

definition day_key :: "int \<Rightarrow> int" where
  "day_key ms = ms div (24 * 60 * 60 * 1000)"

text \<open>\<^verbatim>\<open>computeOwnerUsageCounts\<close>.\<close>

definition computeOwnerUsageCounts :: "db \<Rightarrow> nat \<Rightarrow> usage" where
  "computeOwnerUsageCounts d ownerId =
    (let shopIds = map shop_id
           (filter (\<lambda>s. shop_owner_id s = Some ownerId \<and> shop_deleted_at s = None) (barber_shops d));
         shopCount = int (length shopIds);
         barbers =
           (if length shopIds > 0 then
              int (length (filter (\<lambda>u. user_deleted_at u = None \<and>
                     (case user_role u of None \<Rightarrow> False | Some r \<Rightarrow> toLowerCase r = ''barber'') \<and>
                     (case user_shop_id u of None \<Rightarrow> False | Some sid \<Rightarrow> sid \<in> set shopIds))
                   (users d)))
            else 0);
         ownerIsPro =
           list_ex (\<lambda>u. user_id u = ownerId \<and> user_deleted_at u = None \<and>
              list_ex (\<lambda>bs. Some (shop_id bs) = user_shop_id u \<and> shop_owner_id bs = Some ownerId \<and>
                             shop_deleted_at bs = None) (barber_shops d))
             (users d);
         professionals_n = barbers + (if ownerIsPro then 1 else 0)
     in \<lparr>shopCount = shopCount, professionalCount = professionals_n, barbersCount = barbers,
         ownerCountsAsProfessional = ownerIsPro\<rparr>)"

text \<open>
  \<^verbatim>\<open>getOrCreateOwnerSubscription\<close>; \<open>now\<close> is its \<^verbatim>\<open>new Date()\<close>. The columns the
  INSERT does not list are NULL.
\<close>

definition getOrCreateOwnerSubscription :: "db \<Rightarrow> nat \<Rightarrow> int \<Rightarrow> subscription \<times> db" where
  "getOrCreateOwnerSubscription d ownerId now =
    (case select_subscription d ownerId of
       Some row \<Rightarrow> (row, d)
     | None \<Rightarrow>
        (let pe = now + 30 * 24 * 60 * 60 * 1000;
             ge = pe + 5 * 24 * 60 * 60 * 1000;
             row = \<lparr>owner_id = ownerId, status = ''active'',
                    current_period_start = Some now, current_period_end = Some pe,
                    grace_period_end = Some ge, last_alert_sent_at = None,
                    billing_provider = None, plan_code = None, paypal_subscription_id = None,
                    paypal_subscription_status = None, pending_plan_code = None,
                    pending_plan_effective_at = None\<rparr>
         in (row, d\<lparr>subscriptions := subscriptions d @ [row]\<rparr>)))"

text \<open>
  The error the driver throws when an INSERT violates a foreign key (SQLSTATE 23503). It
  carries no \<^verbatim>\<open>status\<close> property.
\<close>

datatype pg_error = ForeignKeyViolation

text \<open>
  \<^verbatim>\<open>INSERT INTO notifications\<close>. The table is declared in \<^verbatim>\<open>server.js\<close> with
  \<^verbatim>\<open>user_id INTEGER NOT NULL REFERENCES users(id)\<close>: the statement fails when no row of
  \<open>users\<close> has the id, deleted or not.
\<close>

definition insert_notification :: "db \<Rightarrow> notification \<Rightarrow> pg_error + db" where
  "insert_notification d row =
    (if list_ex (\<lambda>u. user_id u = notif_user_id row) (users d)
     then Inr (d\<lparr>notifications := notifications d @ [row]\<rparr>)
     else Inl ForeignKeyViolation)"

text \<open>
  \<^verbatim>\<open>ensureDailySubscriptionExpiredNotification\<close>; \<open>now\<close> is the \<^verbatim>\<open>new Date()\<close> of its
  own state computation and \<open>sqlNow\<close> the \<^verbatim>\<open>NOW()\<close> of its statements. A failing INSERT
  is thrown to the caller.
\<close>

definition ensureDailySubscriptionExpiredNotification ::
    "db \<Rightarrow> nat \<Rightarrow> subscription \<Rightarrow> int \<Rightarrow> int \<Rightarrow> pg_error + db" where
  "ensureDailySubscriptionExpiredNotification d ownerId subscriptionRow now sqlNow =
    (let state = computeSubscriptionState now subscriptionRow in
     if periodEnd state = None then Inr d
     else if isActive state then Inr d
     else
       (let lastAlert = parsePgTimestamp (last_alert_sent_at subscriptionRow);
            todayKey = day_key (st_now state);
            lastKey = map_option day_key lastAlert
        in if lastKey = Some todayKey then Inr d
           else
             (let blockDate = map_option day_key (graceEnd state);
                  row = \<lparr>notif_user_id = ownerId, notif_type = ''SUBSCRIPTION_EXPIRED'',
                         notif_title = ''Tu plan vencio'', notif_block_date = blockDate,
                         notif_status = ''PENDING'', payload_periodEnd = periodEnd state,
                         payload_graceEnd = graceEnd state, notif_created_at = sqlNow\<rparr>
              in case insert_notification d row of
                   Inl err \<Rightarrow> Inl err
                 | Inr d1 \<Rightarrow>
                     Inr (update_subscriptions ownerId
                            (\<lambda>s. s\<lparr>last_alert_sent_at := Some sqlNow\<rparr>) d1))))"

subsection \<open>Enforcement gates\<close>








subsection \<open>Renewal\<close>

text \<open>SQL \<^verbatim>\<open>COALESCE(a, b)\<close>: only NULL is skipped.\<close>

definition coalesce :: "'a option \<Rightarrow> 'a option \<Rightarrow> 'a option" where
  "coalesce a b = (case a of None \<Rightarrow> b | Some v \<Rightarrow> Some v)"

text \<open>
  \<^verbatim>\<open>renewSubscription30Days\<close> of the controller with the recurring rail. \<open>tCreate\<close> is
  the clock reading of the lazy creation, \<open>now\<close> the function's own \<^verbatim>\<open>new Date()\<close>.
  The result is \<^verbatim>\<open>updated.rows[0]\<close>.
\<close>

definition renewSubscription30Days :: "db \<Rightarrow> nat \<Rightarrow> int \<Rightarrow> int \<Rightarrow> subscription option \<times> db" where
  "renewSubscription30Days d ownerId tCreate now =
    (let (sub, d1) = getOrCreateOwnerSubscription d ownerId tCreate;
         usage = computeOwnerUsageCounts d1 ownerId;
         pricing = computeMonthlyPriceDop usage;
         planCode = js_or (pending_plan_code sub)
                      (js_or (plan_code sub) (js_or (map_option tier_code (pr_tier pricing)) None));
         currentEnd = current_period_end sub;
         start = (case currentEnd of None \<Rightarrow> now | Some e \<Rightarrow> if e > now then e else now);
         pe = start + 30 * 24 * 60 * 60 * 1000;
         ge = pe + 5 * 24 * 60 * 60 * 1000;
         d2 = update_subscriptions ownerId
                (\<lambda>s. s\<lparr>status := ''active'',
                        plan_code := coalesce planCode (plan_code s),
                        current_period_start := Some start,
                        current_period_end := Some pe,
                        grace_period_end := Some ge\<rparr>) d1
     in (select_subscription d2 ownerId, d2))"

text \<open>
  \<^verbatim>\<open>renewSubscription30Days\<close> of \<^verbatim>\<open>src/controllers/subscriptionController.js\<close>, the
  controller without the recurring rail: the same periods, no plan code.
\<close>

definition renewSubscription30Days_plain ::
    "db \<Rightarrow> nat \<Rightarrow> int \<Rightarrow> int \<Rightarrow> subscription option \<times> db" where
  "renewSubscription30Days_plain d ownerId tCreate now =
    (let (sub, d1) = getOrCreateOwnerSubscription d ownerId tCreate;
         currentEnd = current_period_end sub;
         start = (case currentEnd of None \<Rightarrow> now | Some e \<Rightarrow> if e > now then e else now);
         pe = start + 30 * 24 * 60 * 60 * 1000;
         ge = pe + 5 * 24 * 60 * 60 * 1000;
         d2 = update_subscriptions ownerId
                (\<lambda>s. s\<lparr>status := ''active'',
                        current_period_start := Some start,
                        current_period_end := Some pe,
                        grace_period_end := Some ge\<rparr>) d1
     in (select_subscription d2 ownerId, d2))"

subsection \<open>Requests, responses and the provider\<close>

record request =
  req_userId :: "nat option"
  req_role :: "string option"

text \<open>\<^verbatim>\<open>!ownerId\<close> for \<^verbatim>\<open>req.user?.userId\<close>.\<close>

definition no_id :: "nat option \<Rightarrow> bool" where
  "no_id v \<longleftrightarrow> (case v of None \<Rightarrow> True | Some n \<Rightarrow> n = 0)"

text \<open>A thrown \<^verbatim>\<open>Error\<close>: \<^verbatim>\<open>error.status\<close> (when set) and \<^verbatim>\<open>error.message\<close>.\<close>

record js_error =
  err_status :: "nat option"
  err_message :: string

text \<open>
  JSON bodies. Message texts are in ASCII (the source has accents); the provider payload
  that some bodies echo (\<^verbatim>\<open>raw\<close>, \<^verbatim>\<open>paypal\<close>) is left out.
\<close>

datatype body =
    Message string
  | MessagePricing string pricing usage
  | CreatedSubscription string string
  | Success
  | Received "bool option"
  | CaptureSuccess "subscription option"
  | ReportBody "report option"
  | ReportSubscriptionBody "report option" "subscription option"

record response =
  resp_status :: nat
  resp_body :: body

text \<open>
  The \<^verbatim>\<open>catch\<close> block of every handler:
  \<^verbatim>\<open>res.status(error.status || 500).json({ message: error.message || 'Error del servidor' })\<close>.
\<close>

definition error_response :: "js_error \<Rightarrow> response" where
  "error_response e =
    \<lparr>resp_status = (case err_status e of None \<Rightarrow> 500 | Some n \<Rightarrow> if n = 0 then 500 else n),
     resp_body = Message (if err_message e = [] then ''Error del servidor'' else err_message e)\<rparr>"

record link =
  link_rel :: "string option"
  link_href :: "string option"

text \<open>The JSON body of the provider's subscription resource.\<close>

record subscription_data =
  sd_id :: "string option"
  sd_status :: "string option"
  sd_plan_id :: "string option"
  sd_message :: "string option"
  sd_links :: "link list option"
  sd_next_billing_time :: "date_text option"

text \<open>
  What \<^verbatim>\<open>fetch\<close> resolved to: \<^verbatim>\<open>res.ok\<close> and the parsed body (\<open>None\<close> when
  \<^verbatim>\<open>res.json()\<close> fails). A call that throws is \<open>Inl\<close> of the error.
\<close>

record 'a fetched =
  fetched_ok :: bool
  fetched_data :: "'a option"

record env =
  PAYPAL_PLAN_ID_BASIC_1 :: "string option"
  PAYPAL_PLAN_ID_BASIC_2 :: "string option"
  PAYPAL_PLAN_ID_PRO :: "string option"
  PAYPAL_PLAN_ID_PREMIUM :: "string option"
  PAYPAL_CURRENCY :: "string option"
  PAYPAL_WEBHOOK_ID :: "string option"

definition VALID_PLAN_CODES :: "string list" where
  "VALID_PLAN_CODES = [''basic_1'', ''basic_2'', ''pro'', ''premium'']"

definition getTierForCode :: "string option \<Rightarrow> plan_tier option" where
  "getTierForCode planCode =
    (let c = trim (str_or_empty planCode) in find (\<lambda>t. tier_code t = c) PLAN_TIERS)"

definition getPaypalPlanIdForCode :: "env \<Rightarrow> string option \<Rightarrow> string option" where
  "getPaypalPlanIdForCode e planCode =
    (let c = trim (str_or_empty planCode) in
     if c \<notin> set VALID_PLAN_CODES then None
     else
       (let envMap = [(''basic_1'', PAYPAL_PLAN_ID_BASIC_1 e), (''basic_2'', PAYPAL_PLAN_ID_BASIC_2 e),
                      (''pro'', PAYPAL_PLAN_ID_PRO e), (''premium'', PAYPAL_PLAN_ID_PREMIUM e)];
            planId = trim (str_or_empty (case map_of envMap c of None \<Rightarrow> None | Some v \<Rightarrow> v))
        in if planId = [] then None else Some planId))"

text \<open>
  \<^verbatim>\<open>getPlanCodeForPaypalPlanId\<close>: in the object literal a later key overwrites an equal
  earlier one, so the table is read from its end.
\<close>

definition getPlanCodeForPaypalPlanId :: "env \<Rightarrow> string option \<Rightarrow> string option" where
  "getPlanCodeForPaypalPlanId e paypalPlanId =
    (let pid = trim (str_or_empty paypalPlanId) in
     if pid = [] then None
     else
       (let reverse = [(trim (str_or_empty (PAYPAL_PLAN_ID_BASIC_1 e)), ''basic_1''),
                       (trim (str_or_empty (PAYPAL_PLAN_ID_BASIC_2 e)), ''basic_2''),
                       (trim (str_or_empty (PAYPAL_PLAN_ID_PRO e)), ''pro''),
                       (trim (str_or_empty (PAYPAL_PLAN_ID_PREMIUM e)), ''premium'')]
        in js_or (map_of (rev reverse) pid) None))"

text \<open>
  \<^verbatim>\<open>paidAt ? new Date(paidAt).toISOString() : new Date().toISOString()\<close>;
  \<^verbatim>\<open>toISOString\<close> of an invalid date throws a RangeError.
\<close>

definition paid_at_iso :: "date_text option \<Rightarrow> int \<Rightarrow> js_error + int" where
  "paid_at_iso paidAt now =
    (case paidAt of
       None \<Rightarrow> Inr now
     | Some (DateText t) \<Rightarrow> Inr t
     | Some BadDateText \<Rightarrow> Inl \<lparr>err_status = None, err_message = ''Invalid time value''\<rparr>)"

text \<open>\<^verbatim>\<open>a || b\<close> on date texts.\<close>

definition date_or :: "date_text option \<Rightarrow> date_text option \<Rightarrow> date_text option" where
  "date_or a b = (case a of None \<Rightarrow> b | Some v \<Rightarrow> Some v)"

text \<open>\<^verbatim>\<open>requireAdmin\<close>: the error it throws, if any.\<close>

definition requireAdmin :: "request \<Rightarrow> js_error option" where
  "requireAdmin req =
    (if \<not> str_includes (normalizeRole (req_role req)) ''admin''
     then Some \<lparr>err_status = Some 403, err_message = ''Acceso denegado: solo admin''\<rparr>
     else None)"

subsection \<open>Recurring rail: create and confirm\<close>

text \<open>
  \<^verbatim>\<open>paypalCreateSubscription\<close>. \<open>token\<close> is the outcome of \<^verbatim>\<open>getPaypalAccessToken\<close>,
  \<open>created\<close> the outcome of the POST to the provider.
\<close>

definition paypalCreateSubscription ::
    "db \<Rightarrow> request \<Rightarrow> string option \<Rightarrow> env \<Rightarrow> js_error + string \<Rightarrow>
     js_error + subscription_data fetched \<Rightarrow> int \<Rightarrow> response \<times> db" where
  "paypalCreateSubscription d req planCode e token created tCreate =
    (case req_userId req of
       None \<Rightarrow> (\<lparr>resp_status = 401, resp_body = Message ''Authentication required''\<rparr>, d)
     | Some ownerId \<Rightarrow>
       if no_id (req_userId req) then
         (\<lparr>resp_status = 401, resp_body = Message ''Authentication required''\<rparr>, d)
       else
       (let role = normalizeRole (req_role req) in
        if \<not> str_includes role ''admin'' \<and> \<not> str_includes role ''owner'' then
          (\<lparr>resp_status = 403, resp_body = Message ''Acceso denegado''\<rparr>, d)
        else
        (let c = trim (str_or_empty planCode) in
         if c \<notin> set VALID_PLAN_CODES then
           (\<lparr>resp_status = 400, resp_body = Message ''planCode invalido''\<rparr>, d)
         else
         (case getPaypalPlanIdForCode e (Some c) of
            None \<Rightarrow>
              (\<lparr>resp_status = 500,
                resp_body = Message (''Falta configurar PAYPAL_PLAN_ID_* para planCode='' @ c)\<rparr>, d)
          | Some planId \<Rightarrow>
            (let usage = computeOwnerUsageCounts d ownerId;
                 pricing = computeMonthlyPriceDop usage in
             if pr_isOverLimit pricing then
               (\<lparr>resp_status = 400,
                 resp_body = MessagePricing
                   ''Tu cuenta excede los limites del plan. Ajusta negocios/profesionales o contacta al administrador.''
                   pricing usage\<rparr>, d)
             else
             (let tierLimits = map_option tier_limits (pr_tier pricing) in
              if (case tierLimits of None \<Rightarrow> False
                  | Some lim \<Rightarrow> shopCount usage > shops lim \<or>
                               professionalCount usage > professionals lim) then
                (\<lparr>resp_status = 400,
                  resp_body = MessagePricing
                    ''Tu uso actual excede el plan seleccionado. Elige un plan superior.''
                    pricing usage\<rparr>, d)
              else
              (case token of
                 Inl err \<Rightarrow> (error_response err, d)
               | Inr accessToken \<Rightarrow>
                 (case created of
                    Inl err \<Rightarrow> (error_response err, d)
                  | Inr ppRes \<Rightarrow>
                    (let ppData = fetched_data ppRes in
                     if \<not> fetched_ok ppRes then
                       (error_response
                          \<lparr>err_status = Some 502,
                           err_message =
                             (case js_or (case ppData of None \<Rightarrow> None | Some p \<Rightarrow> sd_message p) None of
                                Some m \<Rightarrow> m
                              | None \<Rightarrow> ''Error creando suscripcion de PayPal'')\<rparr>, d)
                     else
                     (let paypalSubscriptionId =
                            js_or (case ppData of None \<Rightarrow> None | Some p \<Rightarrow> sd_id p) None;
                          approveLink =
                            (case (case ppData of None \<Rightarrow> None | Some p \<Rightarrow> sd_links p) of
                               None \<Rightarrow> None
                             | Some ls \<Rightarrow>
                                 find (\<lambda>l. toLowerCase (str_or_empty (link_rel l)) = ''approve'') ls);
                          approvalUrl =
                            js_or (case approveLink of None \<Rightarrow> None | Some l \<Rightarrow> link_href l) None
                      in case (paypalSubscriptionId, approvalUrl) of
                           (Some sid, Some url) \<Rightarrow>
                             (let (sub, d1) = getOrCreateOwnerSubscription d ownerId tCreate;
                                  d2 = update_subscriptions ownerId
                                         (\<lambda>s. s\<lparr>billing_provider := Some ''paypal'',
                                                 paypal_subscription_id := Some sid,
                                                 paypal_subscription_status :=
                                                   Some (str_or_empty
                                                     (case ppData of None \<Rightarrow> None | Some p \<Rightarrow> sd_status p)),
                                                 pending_plan_code := Some c,
                                                 pending_plan_effective_at := None\<rparr>) d1
                              in (\<lparr>resp_status = 200, resp_body = CreatedSubscription sid url\<rparr>, d2))
                         | _ \<Rightarrow>
                             (\<lparr>resp_status = 502,
                               resp_body = Message ''Respuesta invalida de PayPal creando suscripcion''\<rparr>,
                              d)))))))))))"

text \<open>
  \<^verbatim>\<open>paypalConfirmSubscription\<close>. \<open>fetchedSub\<close> is the outcome of the GET of the provider's
  subscription.
\<close>

definition paypalConfirmSubscription ::
    "db \<Rightarrow> request \<Rightarrow> string option \<Rightarrow> env \<Rightarrow> js_error + string \<Rightarrow>
     js_error + subscription_data fetched \<Rightarrow> int \<Rightarrow> int \<Rightarrow> response \<times> db" where
  "paypalConfirmSubscription d req subscriptionId e token fetchedSub tCreate now =
    (case req_userId req of
       None \<Rightarrow> (\<lparr>resp_status = 401, resp_body = Message ''Authentication required''\<rparr>, d)
     | Some ownerId \<Rightarrow>
       if no_id (req_userId req) then
         (\<lparr>resp_status = 401, resp_body = Message ''Authentication required''\<rparr>, d)
       else
       (let role = normalizeRole (req_role req) in
        if \<not> str_includes role ''admin'' \<and> \<not> str_includes role ''owner'' then
          (\<lparr>resp_status = 403, resp_body = Message ''Acceso denegado''\<rparr>, d)
        else if \<not> truthy subscriptionId then
          (\<lparr>resp_status = 400, resp_body = Message ''subscriptionId requerido''\<rparr>, d)
        else
        (case token of
           Inl err \<Rightarrow> (error_response err, d)
         | Inr accessToken \<Rightarrow>
           (case fetchedSub of
              Inl err \<Rightarrow> (error_response err, d)
            | Inr ppRes \<Rightarrow>
              (let ppData = fetched_data ppRes in
               if \<not> fetched_ok ppRes then
                 (error_response
                    \<lparr>err_status = Some 502,
                     err_message =
                       (case js_or (case ppData of None \<Rightarrow> None | Some p \<Rightarrow> sd_message p) None of
                          Some m \<Rightarrow> m
                        | None \<Rightarrow> ''Error consultando suscripcion de PayPal'')\<rparr>, d)
               else
               (let pstatus = toUpperCase
                       (str_or_empty (case ppData of None \<Rightarrow> None | Some p \<Rightarrow> sd_status p)) in
                if pstatus = [] then
                  (\<lparr>resp_status = 502, resp_body = Message ''Respuesta invalida de PayPal''\<rparr>, d)
                else
                (let planCodeFromPaypal =
                       getPlanCodeForPaypalPlanId e
                         (case ppData of None \<Rightarrow> None | Some p \<Rightarrow> sd_plan_id p);
                     (sub, d1) = getOrCreateOwnerSubscription d ownerId tCreate in
                 if str_or_empty (paypal_subscription_id sub) \<noteq> str_or_empty subscriptionId then
                   (\<lparr>resp_status = 400,
                     resp_body = Message ''subscriptionId no coincide con el owner''\<rparr>, d)
                 else if pstatus \<noteq> ''ACTIVE'' then
                   (\<lparr>resp_status = 200, resp_body = Success\<rparr>,
                    update_subscriptions ownerId
                      (\<lambda>s. s\<lparr>billing_provider := Some ''paypal'',
                              paypal_subscription_status := Some pstatus\<rparr>) d1)
                 else
                 (let resolvedPlanCode =
                        js_or planCodeFromPaypal
                          (js_or (pending_plan_code sub) (js_or (plan_code sub) None));
                      nextBilling = (case ppData of None \<Rightarrow> None | Some p \<Rightarrow> sd_next_billing_time p);
                      pe = (case nextBilling of
                              Some (DateText t) \<Rightarrow> t
                            | _ \<Rightarrow> now + 30 * 24 * 60 * 60 * 1000);
                      ge = pe + 5 * 24 * 60 * 60 * 1000
                  in (\<lparr>resp_status = 200, resp_body = Success\<rparr>,
                      update_subscriptions ownerId
                        (\<lambda>s. s\<lparr>status := ''active'',
                                plan_code := coalesce resolvedPlanCode (plan_code s),
                                billing_provider := Some ''paypal'',
                                paypal_subscription_status := Some pstatus,
                                pending_plan_code := None,
                                pending_plan_effective_at := None,
                                current_period_start := Some now,
                                current_period_end := Some pe,
                                grace_period_end := Some ge\<rparr>) d1)))))))))"

subsection \<open>Recurring rail: webhook\<close>

definition empty_resource :: resource where
  "empty_resource =
    \<lparr>billing_agreement_id = None, res_id = None, subscription_id = None, sale_id = None,
     transaction_id = None, res_status = None, res_amount = None, res_time = None,
     res_create_time = None\<rparr>"

definition isPaymentSuccessEvent :: "string \<Rightarrow> bool" where
  "isPaymentSuccessEvent eventType \<longleftrightarrow>
     eventType = ''BILLING.SUBSCRIPTION.PAYMENT.SUCCEEDED'' \<or>
     eventType = ''PAYMENT.CAPTURE.COMPLETED'' \<or>
     eventType = ''PAYMENT.SALE.COMPLETED'' \<or>
     (str_includes eventType ''PAYMENT'' \<and>
      \<not> str_includes eventType ''FAILED'' \<and>
      \<not> str_includes eventType ''DENIED'' \<and>
      \<not> str_includes eventType ''REVERSED'' \<and>
      \<not> str_includes eventType ''REFUNDED'')"

text \<open>
  The best-effort plan sync of the webhook: any failure of the token request or of the
  GET is swallowed by its own \<^verbatim>\<open>try\<close>/\<^verbatim>\<open>catch\<close>.
\<close>

definition syncPlanCode ::
    "db \<Rightarrow> nat \<Rightarrow> env \<Rightarrow> js_error + string \<Rightarrow> js_error + subscription_data fetched \<Rightarrow> db" where
  "syncPlanCode d ownerId e token fetchedSub =
    (case token of
       Inl err \<Rightarrow> d
     | Inr accessToken \<Rightarrow>
       (case fetchedSub of
          Inl err \<Rightarrow> d
        | Inr ppRes \<Rightarrow>
          if fetched_ok ppRes then
            (case getPlanCodeForPaypalPlanId e
                    (case fetched_data ppRes of None \<Rightarrow> None | Some p \<Rightarrow> sd_plan_id p) of
               None \<Rightarrow> d
             | Some planCodeFromPaypal \<Rightarrow>
                 update_subscriptions ownerId
                   (\<lambda>s. s\<lparr>plan_code := coalesce (Some planCodeFromPaypal) (plan_code s)\<rparr>) d)
          else d))"

text \<open>The five transmission headers of a webhook delivery, read by lower-cased name.\<close>

record webhook_headers =
  paypal_transmission_id :: "string option"
  paypal_transmission_time :: "string option"
  paypal_transmission_sig :: "string option"
  paypal_cert_url :: "string option"
  paypal_auth_algo :: "string option"

text \<open>The JSON body of the provider's answer to a signature verification.\<close>

record verification_data =
  verification_status :: "string option"
  verification_message :: "string option"

text \<open>
  \<^verbatim>\<open>verifyPaypalWebhookSignature\<close>: the boolean it returns or the error it throws.
  \<open>token\<close> is the outcome of its \<^verbatim>\<open>getPaypalAccessToken\<close>, \<open>verification\<close> the outcome
  of the POST to the provider's verification endpoint.
\<close>

definition verifyPaypalWebhookSignature ::
    "env \<Rightarrow> webhook_headers \<Rightarrow> js_error + string \<Rightarrow>
     js_error + verification_data fetched \<Rightarrow> js_error + bool" where
  "verifyPaypalWebhookSignature e headers token verification =
    (let webhookId = trim (str_or_empty (PAYPAL_WEBHOOK_ID e)) in
     if webhookId = [] then
       Inl \<lparr>err_status = Some 500,
            err_message = ''Falta PAYPAL_WEBHOOK_ID para verificar webhooks de PayPal''\<rparr>
     else if \<not> truthy (paypal_transmission_id headers) \<or>
             \<not> truthy (paypal_transmission_time headers) \<or>
             \<not> truthy (paypal_transmission_sig headers) \<or>
             \<not> truthy (paypal_cert_url headers) \<or>
             \<not> truthy (paypal_auth_algo headers) then
       Inl \<lparr>err_status = Some 400, err_message = ''Headers de webhook PayPal incompletos''\<rparr>
     else
       (case token of
          Inl err \<Rightarrow> Inl err
        | Inr accessToken \<Rightarrow>
          (case verification of
             Inl err \<Rightarrow> Inl err
           | Inr res \<Rightarrow>
             (let vdata = fetched_data res in
              if \<not> fetched_ok res then
                Inl \<lparr>err_status = Some 502,
                     err_message =
                       (case js_or (case vdata of None \<Rightarrow> None | Some v \<Rightarrow> verification_message v)
                               None of
                          Some m \<Rightarrow> m
                        | None \<Rightarrow> ''No se pudo verificar firma de webhook PayPal'')\<rparr>
              else
                Inr (toUpperCase
                       (str_or_empty (case vdata of None \<Rightarrow> None | Some v \<Rightarrow> verification_status v))
                     = ''SUCCESS'')))))"

text \<open>
  The status sync of the webhook, its block for \<^verbatim>\<open>BILLING.SUBSCRIPTION.*\<close> events.
\<close>

definition syncSubscriptionStatus :: "db \<Rightarrow> nat \<Rightarrow> string \<Rightarrow> resource \<Rightarrow> db" where
  "syncSubscriptionStatus d ownerId eventType resource =
    (if prefix ''BILLING.SUBSCRIPTION.'' eventType then
       (let newStatus =
              (if toUpperCase (str_or_empty (res_status resource)) = []
               then eventType
               else toUpperCase (str_or_empty (res_status resource)))
        in update_subscriptions ownerId
             (\<lambda>s. s\<lparr>paypal_subscription_status := Some newStatus,
                     billing_provider := Some ''paypal''\<rparr>) d)
     else d)"

text \<open>The payment row the webhook inserts, given the instant \<open>paid\<close> for \<^verbatim>\<open>paid_at\<close>.\<close>

definition webhookPaymentRow ::
    "nat \<Rightarrow> string \<Rightarrow> string \<Rightarrow> string \<Rightarrow> webhook_event \<Rightarrow> resource \<Rightarrow> int \<Rightarrow> payment" where
  "webhookPaymentRow ownerId eventType subscriptionId transactionId event resource paid =
    (let am = res_amount resource;
         amount = (case am of None \<Rightarrow> None
                   | Some a \<Rightarrow> js_or (am_total a) (js_or (am_value a) (js_or (am_amount a) None)));
         currency = (case am of None \<Rightarrow> None
                     | Some a \<Rightarrow> js_or (am_currency a)
                                   (js_or (am_currency_code a) (js_or (am_currencyCode a) None)))
     in \<lparr>pay_owner_id = ownerId,
         pay_provider = ''paypal_subscription'',
         pay_status = ''confirmed'',
         pay_amount = amount,
         pay_currency = map_option toUpperCase currency,
         provider_payment_id = Some transactionId,
         pay_metadata = WebhookMeta eventType subscriptionId event,
         paid_at = paid\<rparr>)"

text \<open>
  \<^verbatim>\<open>paypalWebhook\<close>. \<open>verifyToken\<close> and \<open>verification\<close> are the outcomes of the two
  provider calls of the signature verification, \<open>token\<close> and \<open>fetchedSub\<close> those of the
  plan sync; \<open>tCreate\<close> and \<open>now\<close> are the clock readings of the renewal, \<open>tPaid\<close> the
  \<^verbatim>\<open>new Date()\<close> used when the event carries no time.
\<close>

definition paypalWebhook ::
    "db \<Rightarrow> webhook_headers \<Rightarrow> webhook_event \<Rightarrow> env \<Rightarrow> js_error + string \<Rightarrow>
     js_error + verification_data fetched \<Rightarrow> js_error + string \<Rightarrow>
     js_error + subscription_data fetched \<Rightarrow> int \<Rightarrow> int \<Rightarrow> int \<Rightarrow> response \<times> db" where
  "paypalWebhook d headers event e verifyToken verification token fetchedSub tCreate now tPaid =
    (case verifyPaypalWebhookSignature e headers verifyToken verification of
       Inl err \<Rightarrow> (error_response err, d)
     | Inr ok \<Rightarrow>
       if \<not> ok then (\<lparr>resp_status = 400, resp_body = Message ''Firma de webhook invalida''\<rparr>, d)
       else
       (let eventType = toUpperCase (str_or_empty (event_type event));
            resource = (case event_resource event of None \<Rightarrow> empty_resource | Some r \<Rightarrow> r);
            subscriptionId =
              js_or (billing_agreement_id resource)
                (js_or (res_id resource) (js_or (subscription_id resource) None));
            transactionId =
              js_or (res_id resource) (js_or (sale_id resource) (js_or (transaction_id resource) None))
        in case subscriptionId of
             None \<Rightarrow> (\<lparr>resp_status = 200, resp_body = Received None\<rparr>, d)
           | Some sid \<Rightarrow>
             (case find (\<lambda>s. paypal_subscription_id s = Some sid) (subscriptions d) of
                None \<Rightarrow> (\<lparr>resp_status = 200, resp_body = Received None\<rparr>, d)
              | Some subRow \<Rightarrow>
                (let ownerId = owner_id subRow;
                     d1 = syncSubscriptionStatus d ownerId eventType resource
                 in case (if isPaymentSuccessEvent eventType then transactionId else None) of
                      None \<Rightarrow> (\<lparr>resp_status = 200, resp_body = Received None\<rparr>, d1)
                    | Some txId \<Rightarrow>
                      (let d2 = syncPlanCode d1 ownerId e token fetchedSub;
                           existing = filter (\<lambda>p. pay_provider p = ''paypal_subscription'' \<and>
                                                   provider_payment_id p = Some txId) (payments d2)
                       in if length existing = 0 then
                            (let (renewed, d3) = renewSubscription30Days d2 ownerId tCreate now;
                                 paidAt = date_or (res_time resource) (res_create_time resource)
                             in case paid_at_iso paidAt tPaid of
                                  Inl err \<Rightarrow> (error_response err, d)
                                | Inr paid \<Rightarrow>
                                  (let row = webhookPaymentRow ownerId eventType sid txId event
                                               resource paid;
                                       d4 = d3\<lparr>payments := payments d3 @ [row]\<rparr>;
                                       d5 = update_subscriptions ownerId
                                              (\<lambda>s. s\<lparr>status := ''active'',
                                                      billing_provider := Some ''paypal''\<rparr>) d4
                                   in (\<lparr>resp_status = 200,
                                        resp_body = Received (Some (renewed \<noteq> None))\<rparr>, d5)))
                          else (\<lparr>resp_status = 200, resp_body = Received None\<rparr>, d2))))))"

subsection \<open>One-off rail: order capture\<close>

text \<open>
  \<^verbatim>\<open>paypalCaptureOrder\<close> of the controller with the recurring rail (the other controller
  has the same text over its own renewal). \<open>captured\<close> is the outcome of the capture call,
  \<open>tPaid\<close> the \<^verbatim>\<open>new Date()\<close> used when the capture carries no time.
\<close>

definition paypalCaptureOrder ::
    "db \<Rightarrow> request \<Rightarrow> string option \<Rightarrow> env \<Rightarrow> js_error + string \<Rightarrow>
     js_error + order_data fetched \<Rightarrow> int \<Rightarrow> int \<Rightarrow> int \<Rightarrow> response \<times> db" where
  "paypalCaptureOrder d req orderId e token captured tCreate now tPaid =
    (case req_userId req of
       None \<Rightarrow> (\<lparr>resp_status = 401, resp_body = Message ''Authentication required''\<rparr>, d)
     | Some ownerId \<Rightarrow>
       if no_id (req_userId req) then
         (\<lparr>resp_status = 401, resp_body = Message ''Authentication required''\<rparr>, d)
       else
       (let role = normalizeRole (req_role req) in
        if \<not> str_includes role ''admin'' \<and> \<not> str_includes role ''owner'' then
          (\<lparr>resp_status = 403, resp_body = Message ''Acceso denegado''\<rparr>, d)
        else
        (case js_or orderId None of
           None \<Rightarrow> (\<lparr>resp_status = 400, resp_body = Message ''orderId requerido''\<rparr>, d)
         | Some oid \<Rightarrow>
           (case token of
              Inl err \<Rightarrow> (error_response err, d)
            | Inr accessToken \<Rightarrow>
              (case captured of
                 Inl err \<Rightarrow> (error_response err, d)
               | Inr ppRes \<Rightarrow>
                 (let ppData = fetched_data ppRes in
                  if \<not> fetched_ok ppRes then
                    (error_response
                       \<lparr>err_status = Some 502,
                        err_message =
                          (case js_or (case ppData of None \<Rightarrow> None | Some p \<Rightarrow> ord_message p) None of
                             Some m \<Rightarrow> m
                           | None \<Rightarrow> ''Error capturando orden de PayPal'')\<rparr>, d)
                  else
                  (let ostatus = toUpperCase
                         (str_or_empty (case ppData of None \<Rightarrow> None | Some p \<Rightarrow> ord_status p)) in
                   if ostatus \<noteq> ''COMPLETED'' then
                     (\<lparr>resp_status = 400,
                       resp_body = Message (''Pago no completado (status='' @
                                     (if ostatus = [] then ''N/A'' else ostatus) @ '')'')\<rparr>, d)
                   else
                   (let cap = (case ppData of None \<Rightarrow> None | Some p \<Rightarrow> ord_capture p);
                        captureId = js_or (case cap of None \<Rightarrow> None | Some c \<Rightarrow> capture_id c) None;
                        amount = js_or (case cap of None \<Rightarrow> None | Some c \<Rightarrow> capture_amount_value c) None;
                        currency =
                          (case js_or (case cap of None \<Rightarrow> None | Some c \<Rightarrow> capture_currency_code c) None of
                             Some cur \<Rightarrow> cur
                           | None \<Rightarrow>
                               toUpperCase (case js_or (PAYPAL_CURRENCY e) None of
                                              Some cur \<Rightarrow> cur | None \<Rightarrow> ''DOP''));
                        paidAt = (case cap of None \<Rightarrow> None | Some c \<Rightarrow> capture_create_time c);
                        (renewed, d1) = renewSubscription30Days d ownerId tCreate now
                    in case paid_at_iso paidAt tPaid of
                         Inl err \<Rightarrow> (error_response err, d)
                       | Inr paid \<Rightarrow>
                         (let row = \<lparr>pay_owner_id = ownerId,
                                     pay_provider = ''paypal'',
                                     pay_status = ''confirmed'',
                                     pay_amount = amount,
                                     pay_currency = Some currency,
                                     provider_payment_id = js_or captureId (Some oid),
                                     pay_metadata = OrderMeta oid captureId ppData,
                                     paid_at = paid\<rparr>
                          in (\<lparr>resp_status = 200, resp_body = CaptureSuccess renewed\<rparr>,
                              d1\<lparr>payments := payments d1 @ [row]\<rparr>))))))))))"

subsection \<open>Manual-transfer rail: decisions\<close>

text \<open>\<^verbatim>\<open>UPDATE manual_payment_reports SET ... WHERE id = $1\<close>.\<close>

definition update_reports :: "nat \<Rightarrow> (report \<Rightarrow> report) \<Rightarrow> db \<Rightarrow> db" where
  "update_reports rid f d =
     d\<lparr>manual_payment_reports :=
         map (\<lambda>r. if rep_id r = rid then f r else r) (manual_payment_reports d)\<rparr>"

definition select_report :: "db \<Rightarrow> nat \<Rightarrow> report option" where
  "select_report d rid = find (\<lambda>r. rep_id r = rid) (manual_payment_reports d)"

text \<open>
  \<^verbatim>\<open>approveManualPaymentReport\<close>; \<open>sqlNow\<close> is \<^verbatim>\<open>NOW()\<close>, \<open>tCreate\<close> and \<open>now\<close> are the
  clock readings of the renewal.
\<close>

definition approveManualPaymentReport ::
    "db \<Rightarrow> request \<Rightarrow> nat \<Rightarrow> int \<Rightarrow> int \<Rightarrow> int \<Rightarrow> response \<times> db" where
  "approveManualPaymentReport d req rid tCreate now sqlNow =
    (case requireAdmin req of
       Some err \<Rightarrow> (error_response err, d)
     | None \<Rightarrow>
       (let requesterId = req_userId req in
        case select_report d rid of
          None \<Rightarrow> (\<lparr>resp_status = 404, resp_body = Message ''Reporte no encontrado''\<rparr>, d)
        | Some rep \<Rightarrow>
          if toLowerCase (rep_status rep) \<noteq> ''pending'' then
            (\<lparr>resp_status = 400, resp_body = Message ''Este reporte ya fue procesado''\<rparr>, d)
          else
          (let ownerId = rep_owner_id rep;
               (renewed, d1) = renewSubscription30Days d ownerId tCreate now;
               row = \<lparr>pay_owner_id = ownerId,
                      pay_provider = ''manual'',
                      pay_status = ''confirmed'',
                      pay_amount = rep_amount rep,
                      pay_currency = rep_currency rep,
                      provider_payment_id = None,
                      pay_metadata = ManualMeta (rep_id rep) (reference_text rep) (proof_url rep)
                                       requesterId,
                      paid_at = sqlNow\<rparr>;
               d2 = d1\<lparr>payments := payments d1 @ [row]\<rparr>;
               d3 = update_reports rid
                      (\<lambda>r. r\<lparr>rep_status := ''approved'', approved_by := requesterId,
                              decided_at := Some sqlNow\<rparr>) d2
           in (\<lparr>resp_status = 200,
                resp_body = ReportSubscriptionBody (select_report d3 rid) renewed\<rparr>, d3))))"

text \<open>\<^verbatim>\<open>rejectManualPaymentReport\<close>.\<close>

definition rejectManualPaymentReport :: "db \<Rightarrow> request \<Rightarrow> nat \<Rightarrow> int \<Rightarrow> response \<times> db" where
  "rejectManualPaymentReport d req rid sqlNow =
    (case requireAdmin req of
       Some err \<Rightarrow> (error_response err, d)
     | None \<Rightarrow>
       (let requesterId = req_userId req in
        case select_report d rid of
          None \<Rightarrow> (\<lparr>resp_status = 404, resp_body = Message ''Reporte no encontrado''\<rparr>, d)
        | Some rep \<Rightarrow>
          if toLowerCase (rep_status rep) \<noteq> ''pending'' then
            (\<lparr>resp_status = 400, resp_body = Message ''Este reporte ya fue procesado''\<rparr>, d)
          else
          (let d1 = update_reports rid
                      (\<lambda>r. r\<lparr>rep_status := ''rejected'', rejected_by := requesterId,
                              decided_at := Some sqlNow\<rparr>) d
           in (\<lparr>resp_status = 200, resp_body = ReportBody (select_report d1 rid)\<rparr>, d1))))"

subsection \<open>Vocabulary of the properties\<close>

text \<open>
  A row as the Renewal Operation leaves it, given the clock reading \<open>now\<close> and the period
  end \<open>prev\<close> the row had before: the new period starts at the later of the two (at
  \<open>now\<close> when there was no period end), lasts 30 days, and is followed by 5 days of grace.
\<close>

definition renewed_row :: "int \<Rightarrow> int option \<Rightarrow> subscription \<Rightarrow> bool" where
  "renewed_row now prev r \<longleftrightarrow>
    (let start = (case prev of None \<Rightarrow> now | Some e \<Rightarrow> max now e) in
     current_period_start r = Some start \<and>
     current_period_end r = Some (start + 30 * 24 * 60 * 60 * 1000) \<and>
     grace_period_end r = Some (start + 30 * 24 * 60 * 60 * 1000 + 5 * 24 * 60 * 60 * 1000) \<and>
     status r = ''active'')"

text \<open>
  The subscription identifier the webhook reads from an event:
  \<^verbatim>\<open>resource.billing_agreement_id || resource.id || resource.subscription_id\<close>.
\<close>

definition event_subscription_id :: "webhook_event \<Rightarrow> string option" where
  "event_subscription_id event =
    (let r = (case event_resource event of None \<Rightarrow> empty_resource | Some r \<Rightarrow> r) in
     js_or (billing_agreement_id r) (js_or (res_id r) (js_or (subscription_id r) None)))"

text \<open>
  The transaction identifier the webhook reads from an event:
  \<^verbatim>\<open>resource.id || resource.sale_id || resource.transaction_id\<close>.
\<close>

definition event_transaction_id :: "webhook_event \<Rightarrow> string option" where
  "event_transaction_id event =
    (let r = (case event_resource event of None \<Rightarrow> empty_resource | Some r \<Rightarrow> r) in
     js_or (res_id r) (js_or (sale_id r) (js_or (transaction_id r) None)))"

text \<open>The time the webhook reads from an event: \<^verbatim>\<open>resource.time || resource.create_time\<close>.\<close>

definition event_paid_at :: "webhook_event \<Rightarrow> date_text option" where
  "event_paid_at event =
    (let r = (case event_resource event of None \<Rightarrow> empty_resource | Some r \<Rightarrow> r) in
     date_or (res_time r) (res_create_time r))"

text \<open>
  The plan code the webhook's plan sync writes, if it writes one: the local code of the
  provider's plan id, when both provider calls succeed.
\<close>

definition synced_plan_code ::
    "env \<Rightarrow> js_error + string \<Rightarrow> js_error + subscription_data fetched \<Rightarrow> string option" where
  "synced_plan_code e token fetchedSub =
    (case (token, fetchedSub) of
       (Inr accessToken, Inr ppRes) \<Rightarrow>
         if fetched_ok ppRes then
           getPlanCodeForPaypalPlanId e
             (case fetched_data ppRes of None \<Rightarrow> None | Some p \<Rightarrow> sd_plan_id p)
         else None
     | _ \<Rightarrow> None)"

text \<open>The provider status the confirm step reads from the fetched subscription.\<close>

definition fetched_status :: "subscription_data fetched \<Rightarrow> string" where
  "fetched_status ppRes =
    toUpperCase (str_or_empty (case fetched_data ppRes of None \<Rightarrow> None | Some p \<Rightarrow> sd_status p))"

text \<open>
  Two rows agree on what is paid for: the plan, the pending plan, the period boundaries and
  the status (and they belong to the same owner).
\<close>

definition same_paid_state :: "subscription \<Rightarrow> subscription \<Rightarrow> bool" where
  "same_paid_state s s' \<longleftrightarrow>
     owner_id s' = owner_id s \<and> plan_code s' = plan_code s \<and>
     pending_plan_code s' = pending_plan_code s \<and>
     current_period_start s' = current_period_start s \<and>
     current_period_end s' = current_period_end s \<and>
     grace_period_end s' = grace_period_end s \<and> status s' = status s"

text \<open>The period boundaries of every subscription row, in table order.\<close>

definition period_boundaries :: "db \<Rightarrow> (nat \<times> int option \<times> int option \<times> int option) list" where
  "period_boundaries d =
     map (\<lambda>s. (owner_id s, current_period_start s, current_period_end s, grace_period_end s))
       (subscriptions d)"

text \<open>The ledger rows of one \<open>(provider, provider_payment_id)\<close> pair.\<close>

definition ledger_rows :: "db \<Rightarrow> string \<Rightarrow> string \<Rightarrow> payment list" where
  "ledger_rows d provider pid =
     filter (\<lambda>p. pay_provider p = provider \<and> provider_payment_id p = Some pid) (payments d)"

text \<open>
  An expiry notification is due for a row at instant \<open>t\<close>: the row has a period end, is not
  Active at \<open>t\<close>, and its last alert was not sent on the UTC day of \<open>t\<close>.
\<close>

definition notification_due :: "subscription \<Rightarrow> int \<Rightarrow> bool" where
  "notification_due row t \<longleftrightarrow>
     current_period_end row \<noteq> None \<and> \<not> isActive (computeSubscriptionState t row) \<and>
     map_option day_key (last_alert_sent_at row) \<noteq> Some (day_key t)"

text \<open>The owner has a row in \<open>users\<close>, the target of the notification's foreign key.\<close>

definition has_user :: "db \<Rightarrow> nat \<Rightarrow> bool" where
  "has_user d ownerId \<longleftrightarrow> list_ex (\<lambda>u. user_id u = ownerId) (users d)"

subsection \<open>Sample data\<close>

text \<open>Concrete rows and requests used by the examples of the next section.\<close>

definition sample_subscription :: subscription where
  "sample_subscription =
    \<lparr>owner_id = 7, status = ''active'',
     current_period_start = Some 0, current_period_end = Some 1000,
     grace_period_end = Some 2000, last_alert_sent_at = None,
     billing_provider = None, plan_code = None, paypal_subscription_id = None,
     paypal_subscription_status = None, pending_plan_code = None,
     pending_plan_effective_at = None\<rparr>"

definition sample_usage :: "int \<Rightarrow> int \<Rightarrow> usage" where
  "sample_usage s p =
    \<lparr>shopCount = s, professionalCount = p, barbersCount = p, ownerCountsAsProfessional = False\<rparr>"

definition sample_shops :: "shop list" where
  "sample_shops =
    [\<lparr>shop_id = 1, shop_owner_id = Some 7, shop_deleted_at = None\<rparr>,
     \<lparr>shop_id = 2, shop_owner_id = Some 7, shop_deleted_at = None\<rparr>]"

text \<open>A row linked to the provider subscription \<open>I-1\<close>, on plan \<open>premium\<close>.\<close>

definition linked_subscription :: subscription where
  "linked_subscription =
    sample_subscription\<lparr>billing_provider := Some ''paypal'',
      plan_code := Some ''premium'',
      paypal_subscription_id := Some ''I-1'',
      paypal_subscription_status := Some ''APPROVAL_PENDING''\<rparr>"

definition owner_request :: request where
  "owner_request = \<lparr>req_userId = Some 7, req_role = Some ''owner''\<rparr>"

definition admin_request :: request where
  "admin_request = \<lparr>req_userId = Some 1, req_role = Some ''admin''\<rparr>"

definition sample_env :: env where
  "sample_env =
    \<lparr>PAYPAL_PLAN_ID_BASIC_1 = Some ''P-B1'', PAYPAL_PLAN_ID_BASIC_2 = Some ''P-B2'',
     PAYPAL_PLAN_ID_PRO = Some ''P-PRO'', PAYPAL_PLAN_ID_PREMIUM = Some ''P-PREM'',
     PAYPAL_CURRENCY = None, PAYPAL_WEBHOOK_ID = Some ''WH-1''\<rparr>"

definition sample_headers :: webhook_headers where
  "sample_headers =
    \<lparr>paypal_transmission_id = Some ''T-1'', paypal_transmission_time = Some ''2024-01-01T00:00:00Z'',
     paypal_transmission_sig = Some ''sig'', paypal_cert_url = Some ''https://cert'',
     paypal_auth_algo = Some ''SHA256withRSA''\<rparr>"

text \<open>The provider's answer to a verification that succeeds.\<close>

definition verification_success :: "verification_data fetched" where
  "verification_success =
    \<lparr>fetched_ok = True,
     fetched_data = Some \<lparr>verification_status = Some ''SUCCESS'', verification_message = None\<rparr>\<rparr>"

definition failed_call :: js_error where
  "failed_call = \<lparr>err_status = None, err_message = ''fetch failed''\<rparr>"

text \<open>The provider's subscription \<open>I-1\<close> as fetched, with a given status.\<close>

definition fetched_subscription :: "string \<Rightarrow> subscription_data fetched" where
  "fetched_subscription st =
    \<lparr>fetched_ok = True,
     fetched_data = Some \<lparr>sd_id = Some ''I-1'', sd_status = Some st, sd_plan_id = None,
                           sd_message = None,
                           sd_links = Some [\<lparr>link_rel = Some ''approve'',
                                             link_href = Some ''https://approve''\<rparr>],
                           sd_next_billing_time = None\<rparr>\<rparr>"

definition sample_event_no_id :: webhook_event where
  "sample_event_no_id =
     \<lparr>event_type = Some ''PAYMENT.SALE.COMPLETED'', event_resource = None\<rparr>"

text \<open>A payment event of the provider subscription \<open>sid\<close> with transaction \<open>tx\<close>.\<close>

definition sale_event :: "string \<Rightarrow> string \<Rightarrow> webhook_event" where
  "sale_event sid tx =
     \<lparr>event_type = Some ''PAYMENT.SALE.COMPLETED'',
      event_resource = Some (empty_resource\<lparr>billing_agreement_id := Some sid, res_id := Some tx\<rparr>)\<rparr>"

definition sample_report :: report where
  "sample_report =
    \<lparr>rep_id = 1, rep_owner_id = 7, rep_amount = Some ''1500'', rep_currency = Some ''DOP'',
     reference_text = Some ''REF-1'', proof_url = None, rep_status = ''pending'',
     approved_by = None, rejected_by = None, decided_at = None\<rparr>"

definition empty_db :: db where
  "empty_db =
    \<lparr>subscriptions = [], payments = [], manual_payment_reports = [], notifications = [],
     barber_shops = [], users = []\<rparr>"

text \<open>Owner 7 with two shops and no staff, and the unlinked sample row.\<close>

definition sample_db :: db where
  "sample_db = empty_db\<lparr>subscriptions := [sample_subscription], barber_shops := sample_shops\<rparr>"


text \<open>The same owner with the linked row.\<close>

definition linked_db :: db where
  "linked_db = empty_db\<lparr>subscriptions := [linked_subscription], barber_shops := sample_shops\<rparr>"

text \<open>The sample owner with one pending transfer report.\<close>

definition pending_report_db :: db where
  "pending_report_db = sample_db\<lparr>manual_payment_reports := [sample_report]\<rparr>"

text \<open>The linked row with a pending change to \<open>basic_2\<close>.\<close>

definition pending_db :: db where
  "pending_db =
     empty_db\<lparr>subscriptions := [linked_subscription\<lparr>pending_plan_code := Some ''basic_2''\<rparr>],
              barber_shops := sample_shops\<rparr>"

text \<open>The provider's answer to the capture of an order: completed, with capture \<open>CAP-1\<close>.\<close>

definition captured_order :: "order_data fetched" where
  "captured_order =
    \<lparr>fetched_ok = True,
     fetched_data = Some \<lparr>ord_status = Some ''COMPLETED'', ord_message = None,
                           ord_capture = Some \<lparr>capture_id = Some ''CAP-1'',
                                                capture_amount_value = Some ''25.00'',
                                                capture_currency_code = Some ''USD'',
                                                capture_create_time = Some (DateText 100)\<rparr>\<rparr>\<rparr>"

text \<open>
  A delivery of an event at instant \<open>t\<close> with complete headers and a signature the
  provider verifies, while the two calls of the plan sync fail.
\<close>

definition sample_delivery :: "db \<Rightarrow> webhook_event \<Rightarrow> int \<Rightarrow> response \<times> db" where
  "sample_delivery d event t =
     paypalWebhook d sample_headers event sample_env (Inr ''token'') (Inr verification_success)
       (Inl failed_call) (Inl failed_call) 0 t t"

text \<open>Owner 7 capturing order \<open>ORDER-1\<close> at instant \<open>t\<close>, with the answer above.\<close>

definition sample_capture :: "db \<Rightarrow> int \<Rightarrow> response \<times> db" where
  "sample_capture d t =
     paypalCaptureOrder d owner_request (Some ''ORDER-1'') sample_env (Inr ''token'')
       (Inr captured_order) 0 t t"

text \<open>
  Owner 7 asking for the plan \<open>basic_1\<close>, the provider creating the subscription \<open>I-1\<close>.
\<close>

definition sample_create :: "response \<times> db" where
  "sample_create =
     paypalCreateSubscription sample_db owner_request (Some ''basic_1'') sample_env (Inr ''token'')
       (Inr (fetched_subscription ''APPROVAL_PENDING'')) 0"

section \<open>Verified properties\<close>

subsection \<open>Pricing tier selection\<close>

lemma sel_tier_find:
  "sel_tier (selectTierForUsage u) = find (\<lambda>t. accommodates t u) PLAN_TIERS"
  by (simp add: selectTierForUsage_def accommodates_def PLAN_TIERS_def Let_def)

lemma none_fits_iff:
  "(\<forall>t\<in>set PLAN_TIERS. \<not> accommodates t u) \<longleftrightarrow> (3 < shopCount u \<or> 12 < professionalCount u)"
  by (auto simp add: accommodates_def PLAN_TIERS_def)

lemma find_none_iff:
  "find (\<lambda>t. accommodates t u) PLAN_TIERS = None \<longleftrightarrow> (3 < shopCount u \<or> 12 < professionalCount u)"
  using none_fits_iff[of u] by (auto simp add: find_None_iff)

text \<open>
  C4. The selector is a function of the usage alone. When some tier of the table
  accommodates both counts, the result carries the first such tier of the table (no
  earlier row accommodates the usage), its price as total, and \<open>isOverLimit = false\<close>.
  When no tier accommodates the usage, the result has \<open>isOverLimit = true\<close>, no tier, no
  total, and the overage is the usage minus the limits 3 and 12 of the last tier, clamped
  at 0.
\<close>

theorem tier_selection_first_fit:
  "((\<exists>t\<in>set PLAN_TIERS. accommodates t u) \<longrightarrow>
      (\<exists>i<length PLAN_TIERS.
          accommodates (PLAN_TIERS ! i) u \<and> (\<forall>j<i. \<not> accommodates (PLAN_TIERS ! j) u) \<and>
          pr_tier (computeMonthlyPriceDop u) = Some (PLAN_TIERS ! i) \<and>
          pr_total (computeMonthlyPriceDop u) = Some (priceDop (PLAN_TIERS ! i)) \<and>
          \<not> pr_isOverLimit (computeMonthlyPriceDop u))) \<and>
   ((\<forall>t\<in>set PLAN_TIERS. \<not> accommodates t u) \<longrightarrow>
      pr_isOverLimit (computeMonthlyPriceDop u) \<and>
      pr_total (computeMonthlyPriceDop u) = None \<and>
      pr_tier (computeMonthlyPriceDop u) = None \<and>
      pr_overage (computeMonthlyPriceDop u) =
        \<lparr>shops = max 0 (shopCount u - 3), professionals = max 0 (professionalCount u - 12)\<rparr>)"
proof (rule conjI; rule impI)
  assume "\<exists>t\<in>set PLAN_TIERS. accommodates t u"
  then have "find (\<lambda>t. accommodates t u) PLAN_TIERS \<noteq> None"
    by (auto simp add: find_None_iff)
  then obtain t where ft: "find (\<lambda>t. accommodates t u) PLAN_TIERS = Some t" by blast
  then obtain i where i: "i < length PLAN_TIERS" "accommodates (PLAN_TIERS ! i) u"
      "t = PLAN_TIERS ! i" "\<forall>j<i. \<not> accommodates (PLAN_TIERS ! j) u"
    unfolding find_Some_iff by blast
  have st: "sel_tier (selectTierForUsage u) = Some t" using ft by (simp add: sel_tier_find)
  have "pr_tier (computeMonthlyPriceDop u) = Some t \<and>
        pr_total (computeMonthlyPriceDop u) = Some (priceDop t) \<and>
        \<not> pr_isOverLimit (computeMonthlyPriceDop u)"
    using st by (simp add: computeMonthlyPriceDop_def Let_def)
  with i show "\<exists>i<length PLAN_TIERS.
          accommodates (PLAN_TIERS ! i) u \<and> (\<forall>j<i. \<not> accommodates (PLAN_TIERS ! j) u) \<and>
          pr_tier (computeMonthlyPriceDop u) = Some (PLAN_TIERS ! i) \<and>
          pr_total (computeMonthlyPriceDop u) = Some (priceDop (PLAN_TIERS ! i)) \<and>
          \<not> pr_isOverLimit (computeMonthlyPriceDop u)" by blast
next
  assume a: "\<forall>t\<in>set PLAN_TIERS. \<not> accommodates t u"
  then have over: "3 < shopCount u \<or> 12 < professionalCount u" by (simp add: none_fits_iff)
  have fn: "sel_tier (selectTierForUsage u) = None"
    using over by (simp add: sel_tier_find find_none_iff)
  have ov: "sel_overage (selectTierForUsage u) =
     \<lparr>shops = max 0 (shopCount u - 3), professionals = max 0 (professionalCount u - 12)\<rparr>"
    by (auto simp add: selectTierForUsage_def PLAN_TIERS_def Let_def max_def)
  have il: "sel_isOverLimit (selectTierForUsage u)"
    using over fn by (auto simp add: selectTierForUsage_def PLAN_TIERS_def Let_def max_def)
  show "pr_isOverLimit (computeMonthlyPriceDop u) \<and>
      pr_total (computeMonthlyPriceDop u) = None \<and>
      pr_tier (computeMonthlyPriceDop u) = None \<and>
      pr_overage (computeMonthlyPriceDop u) =
        \<lparr>shops = max 0 (shopCount u - 3), professionals = max 0 (professionalCount u - 12)\<rparr>"
    using fn ov il by (simp add: computeMonthlyPriceDop_def Let_def)
qed

text \<open>
  Two owners: 2 shops and 5 professionals get the tier \<open>pro\<close> at 2000 (the two basic
  tiers cap at one shop); 4 shops and 20 professionals are over the limit by 1 and 8.
\<close>

theorem tier_selection_first_fit_witness:
  "(\<exists>t\<in>set PLAN_TIERS. accommodates t (sample_usage 2 5)) \<and>
   pr_total (computeMonthlyPriceDop (sample_usage 2 5)) = Some 2000 \<and>
   map_option tier_code (pr_tier (computeMonthlyPriceDop (sample_usage 2 5))) = Some ''pro'' \<and>
   \<not> (\<exists>t\<in>set PLAN_TIERS. accommodates t (sample_usage 4 20)) \<and>
   pr_isOverLimit (computeMonthlyPriceDop (sample_usage 4 20)) \<and>
   pr_overage (computeMonthlyPriceDop (sample_usage 4 20)) = \<lparr>shops = 1, professionals = 8\<rparr>"
proof -
  have fits: "\<exists>t\<in>set PLAN_TIERS. accommodates t (sample_usage 2 5)"
    by (simp add: PLAN_TIERS_def accommodates_def sample_usage_def)
  have nofit: "\<forall>t\<in>set PLAN_TIERS. \<not> accommodates t (sample_usage 4 20)"
    by (simp add: PLAN_TIERS_def accommodates_def sample_usage_def)
  from fits tier_selection_first_fit[of "sample_usage 2 5"]
  obtain i where i: "i < length PLAN_TIERS" "accommodates (PLAN_TIERS ! i) (sample_usage 2 5)"
      "pr_tier (computeMonthlyPriceDop (sample_usage 2 5)) = Some (PLAN_TIERS ! i)"
      "pr_total (computeMonthlyPriceDop (sample_usage 2 5)) = Some (priceDop (PLAN_TIERS ! i))"
      "\<forall>j<i. \<not> accommodates (PLAN_TIERS ! j) (sample_usage 2 5)"
    by blast
  have "accommodates (PLAN_TIERS ! 2) (sample_usage 2 5)"
    by (simp add: PLAN_TIERS_def accommodates_def sample_usage_def)
  with i(5) have "\<not> 2 < i" by blast
  moreover have "i \<noteq> 0"
  proof
    assume "i = 0"
    with i(2) show False by (simp add: PLAN_TIERS_def accommodates_def sample_usage_def)
  qed
  moreover have "i \<noteq> 1"
  proof
    assume "i = 1"
    with i(2) show False by (simp add: PLAN_TIERS_def accommodates_def sample_usage_def)
  qed
  ultimately have "i = 2" by arith
  then have pro: "pr_total (computeMonthlyPriceDop (sample_usage 2 5)) = Some 2000"
      "map_option tier_code (pr_tier (computeMonthlyPriceDop (sample_usage 2 5))) = Some ''pro''"
    using i(3,4) by (simp_all add: PLAN_TIERS_def)
  from nofit tier_selection_first_fit[of "sample_usage 4 20"]
  have "pr_isOverLimit (computeMonthlyPriceDop (sample_usage 4 20))"
       "pr_overage (computeMonthlyPriceDop (sample_usage 4 20)) = \<lparr>shops = 1, professionals = 8\<rparr>"
    by (simp_all add: sample_usage_def)
  with fits nofit pro show ?thesis by blast
qed

subsection \<open>Entitlement state\<close>

text \<open>
  C2, as the code has it. The flags depend on the row only through its two boundaries.
  With period end \<open>T\<close> and grace end \<open>G\<close>: Active exactly when \<open>now \<le> T\<close>, Grace exactly when
  \<open>T < now \<le> G\<close>, Blocked exactly when \<open>now\<close> is after both, which for \<open>T \<le> G\<close> is
  \<open>now > G\<close>; both boundaries belong to the lower state. Without a period end the state is
  never Active; it is Grace while \<open>now \<le> G\<close> and Blocked after \<open>G\<close>, or always Blocked when
  the grace end is absent too. With a period end and no grace end it is Blocked after \<open>T\<close>.
\<close>

theorem entitlement_state_cases:
  "(let s = computeSubscriptionState now
              (row\<lparr>current_period_end := Some T, grace_period_end := Some G\<rparr>)
    in (isActive s \<longleftrightarrow> now \<le> T) \<and> (isInGrace s \<longleftrightarrow> T < now \<and> now \<le> G) \<and>
       (isBlocked s \<longleftrightarrow> T < now \<and> G < now) \<and> (T \<le> G \<longrightarrow> (isBlocked s \<longleftrightarrow> G < now))) \<and>
   (let s = computeSubscriptionState now
              (row\<lparr>current_period_end := None, grace_period_end := Some G\<rparr>)
    in \<not> isActive s \<and> (isInGrace s \<longleftrightarrow> now \<le> G) \<and> (isBlocked s \<longleftrightarrow> G < now)) \<and>
   (let s = computeSubscriptionState now
              (row\<lparr>current_period_end := None, grace_period_end := None\<rparr>)
    in \<not> isActive s \<and> \<not> isInGrace s \<and> isBlocked s) \<and>
   (let s = computeSubscriptionState now
              (row\<lparr>current_period_end := Some T, grace_period_end := None\<rparr>)
    in (isActive s \<longleftrightarrow> now \<le> T) \<and> \<not> isInGrace s \<and> (isBlocked s \<longleftrightarrow> T < now))"
  by (auto simp add: computeSubscriptionState_def parsePgTimestamp_def Let_def)

text \<open>A row one instant into its grace window: period end 5, grace end 10, read at 7.\<close>

theorem entitlement_state_cases_witness:
  "(5::int) \<le> 10 \<and>
   isInGrace (computeSubscriptionState 7
     (sample_subscription\<lparr>current_period_end := Some 5, grace_period_end := Some 10\<rparr>)) \<and>
   \<not> isBlocked (computeSubscriptionState 7
     (sample_subscription\<lparr>current_period_end := Some 5, grace_period_end := Some 10\<rparr>))"
  using entitlement_state_cases[where now = 7 and row = sample_subscription and T = 5 and G = 10]
  by (simp add: Let_def)

text \<open>
  The claim as written fails twice: a row without a period end whose grace end is still
  ahead is in Grace, not Blocked; and a row whose grace end lies before its period end is
  Active, not Blocked, between the two.
\<close>

theorem entitlement_state_counterexample:
  "isInGrace (computeSubscriptionState 5
     (sample_subscription\<lparr>current_period_end := None, grace_period_end := Some 10\<rparr>)) \<and>
   \<not> isBlocked (computeSubscriptionState 5
     (sample_subscription\<lparr>current_period_end := None, grace_period_end := Some 10\<rparr>)) \<and>
   (7::int) > 5 \<and>
   \<not> isBlocked (computeSubscriptionState 7
     (sample_subscription\<lparr>current_period_end := Some 10, grace_period_end := Some 5\<rparr>))"
  by (simp add: computeSubscriptionState_def parsePgTimestamp_def Let_def)

subsection \<open>Store lemmas\<close>

lemma find_map_update:
  assumes "find P xs = Some x" and "\<And>y. P y \<Longrightarrow> P (f y)"
  shows "find P (map (\<lambda>y. if P y then f y else y) xs) = Some (f x)"
  using assms by (induction xs) (auto split: if_splits)

lemma find_append_new:
  assumes "find P xs = None" and "P x"
  shows "find P (xs @ [x]) = Some x"
  using assms by (induction xs) (auto split: if_splits)

lemma select_update_subscriptions:
  assumes "select_subscription d ownerId = Some sub" and "\<And>s. owner_id (f s) = owner_id s"
  shows "select_subscription (update_subscriptions ownerId f d) ownerId = Some (f sub)"
  using find_map_update[where P = "\<lambda>s. owner_id s = ownerId" and f = f,
      OF assms(1)[unfolded select_subscription_def]] assms(2)
  by (simp add: select_subscription_def update_subscriptions_def)

lemma getOrCreate_select:
  assumes "getOrCreateOwnerSubscription d ownerId t = (sub, d1)"
  shows "select_subscription d1 ownerId = Some sub"
proof (cases "select_subscription d ownerId")
  case None
  then have nf: "find (\<lambda>s. owner_id s = ownerId) (subscriptions d) = None"
    by (simp add: select_subscription_def)
  from find_append_new[OF nf] assms None show ?thesis
    by (auto simp add: getOrCreateOwnerSubscription_def select_subscription_def Let_def)
next
  case (Some row)
  with assms show ?thesis by (simp add: getOrCreateOwnerSubscription_def)
qed

lemma getOrCreate_frame:
  assumes "getOrCreateOwnerSubscription d ownerId t = (sub, d1)"
  shows "payments d1 = payments d \<and> manual_payment_reports d1 = manual_payment_reports d \<and>
         barber_shops d1 = barber_shops d \<and> users d1 = users d \<and>
         notifications d1 = notifications d"
  using assms by (auto simp add: getOrCreateOwnerSubscription_def Let_def split: option.splits)

subsection \<open>Renewal\<close>

lemma renew_unfold:
  assumes g: "getOrCreateOwnerSubscription d ownerId tCreate = (sub, d1)"
    and start: "start = (case current_period_end sub of None \<Rightarrow> now | Some e \<Rightarrow> max now e)"
    and planCode: "planCode = js_or (pending_plan_code sub)
        (js_or (plan_code sub)
           (js_or (map_option tier_code
              (pr_tier (computeMonthlyPriceDop (computeOwnerUsageCounts d1 ownerId)))) None))"
    and f: "f = (\<lambda>s::subscription. s\<lparr>status := ''active'',
                        plan_code := coalesce planCode (plan_code s),
                        current_period_start := Some start,
                        current_period_end := Some (start + 30 * 24 * 60 * 60 * 1000),
                        grace_period_end :=
                          Some (start + 30 * 24 * 60 * 60 * 1000 + 5 * 24 * 60 * 60 * 1000)\<rparr>)"
  shows "renewSubscription30Days d ownerId tCreate now =
           (Some (f sub), update_subscriptions ownerId f d1)"
proof -
  have st: "(case current_period_end sub of None \<Rightarrow> now | Some e \<Rightarrow> if e > now then e else now) = start"
    by (auto simp add: start max_def split: option.splits)
  have eq: "renewSubscription30Days d ownerId tCreate now =
        (select_subscription (update_subscriptions ownerId f d1) ownerId,
         update_subscriptions ownerId f d1)"
    using g st by (simp add: renewSubscription30Days_def Let_def f planCode)
  have own: "\<And>s. owner_id (f s) = owner_id s" by (simp add: f)
  have "select_subscription (update_subscriptions ownerId f d1) ownerId = Some (f sub)"
    using getOrCreate_select[OF g] own by (rule select_update_subscriptions)
  with eq show ?thesis by simp
qed

lemma renew_plain_unfold:
  assumes g: "getOrCreateOwnerSubscription d ownerId tCreate = (sub, d1)"
    and start: "start = (case current_period_end sub of None \<Rightarrow> now | Some e \<Rightarrow> max now e)"
    and f: "f = (\<lambda>s::subscription. s\<lparr>status := ''active'',
                        current_period_start := Some start,
                        current_period_end := Some (start + 30 * 24 * 60 * 60 * 1000),
                        grace_period_end :=
                          Some (start + 30 * 24 * 60 * 60 * 1000 + 5 * 24 * 60 * 60 * 1000)\<rparr>)"
  shows "renewSubscription30Days_plain d ownerId tCreate now =
           (Some (f sub), update_subscriptions ownerId f d1)"
proof -
  have st: "(case current_period_end sub of None \<Rightarrow> now | Some e \<Rightarrow> if e > now then e else now) = start"
    by (auto simp add: start max_def split: option.splits)
  have eq: "renewSubscription30Days_plain d ownerId tCreate now =
        (select_subscription (update_subscriptions ownerId f d1) ownerId,
         update_subscriptions ownerId f d1)"
    using g st by (simp add: renewSubscription30Days_plain_def Let_def f)
  have own: "\<And>s. owner_id (f s) = owner_id s" by (simp add: f)
  have "select_subscription (update_subscriptions ownerId f d1) ownerId = Some (f sub)"
    using getOrCreate_select[OF g] own by (rule select_update_subscriptions)
  with eq show ?thesis by simp
qed

lemma renewed_row_monotone:
  assumes "renewed_row now (Some e) r"
  shows "\<exists>e'. current_period_end r = Some e' \<and> e \<le> e'"
  using assms by (auto simp add: renewed_row_def Let_def)

text \<open>
  C3. For either controller's \<^verbatim>\<open>renewSubscription30Days\<close>, on a row that exists or is
  created by the call, with \<open>prev\<close> the period end the fetched row had: the call returns
  the stored row of the owner, whose period starts at \<open>max now prev\<close>, ends 30 days later,
  has its grace end 5 days after that and status \<open>active\<close>; the new period end is never
  before the old one; and every row of the owner is left in that shape.
\<close>

theorem renewal_periods:
  "(let prev = current_period_end (fst (getOrCreateOwnerSubscription d ownerId tCreate)) in
    (\<exists>r. fst (renewSubscription30Days d ownerId tCreate now) = Some r \<and>
          select_subscription (snd (renewSubscription30Days d ownerId tCreate now)) ownerId = Some r \<and>
          renewed_row now prev r \<and>
          (\<forall>e. prev = Some e \<longrightarrow> (\<exists>e'. current_period_end r = Some e' \<and> e \<le> e'))) \<and>
    (\<forall>s\<in>set (subscriptions (snd (renewSubscription30Days d ownerId tCreate now))).
          owner_id s = ownerId \<longrightarrow> renewed_row now prev s) \<and>
    (\<exists>r. fst (renewSubscription30Days_plain d ownerId tCreate now) = Some r \<and>
          select_subscription (snd (renewSubscription30Days_plain d ownerId tCreate now)) ownerId = Some r \<and>
          renewed_row now prev r \<and>
          (\<forall>e. prev = Some e \<longrightarrow> (\<exists>e'. current_period_end r = Some e' \<and> e \<le> e'))) \<and>
    (\<forall>s\<in>set (subscriptions (snd (renewSubscription30Days_plain d ownerId tCreate now))).
          owner_id s = ownerId \<longrightarrow> renewed_row now prev s))"
proof -
  obtain sub d1 where g: "getOrCreateOwnerSubscription d ownerId tCreate = (sub, d1)"
    by (cases "getOrCreateOwnerSubscription d ownerId tCreate")
  define prev where "prev = current_period_end sub"
  define start where "start = (case current_period_end sub of None \<Rightarrow> now | Some e \<Rightarrow> max now e)"
  define planCode where "planCode = js_or (pending_plan_code sub)
        (js_or (plan_code sub)
           (js_or (map_option tier_code
              (pr_tier (computeMonthlyPriceDop (computeOwnerUsageCounts d1 ownerId)))) None))"
  define f where "f = (\<lambda>s::subscription. s\<lparr>status := ''active'',
                        plan_code := coalesce planCode (plan_code s),
                        current_period_start := Some start,
                        current_period_end := Some (start + 30 * 24 * 60 * 60 * 1000),
                        grace_period_end :=
                          Some (start + 30 * 24 * 60 * 60 * 1000 + 5 * 24 * 60 * 60 * 1000)\<rparr>)"
  define h where "h = (\<lambda>s::subscription. s\<lparr>status := ''active'',
                        current_period_start := Some start,
                        current_period_end := Some (start + 30 * 24 * 60 * 60 * 1000),
                        grace_period_end :=
                          Some (start + 30 * 24 * 60 * 60 * 1000 + 5 * 24 * 60 * 60 * 1000)\<rparr>)"
  have rf: "renewSubscription30Days d ownerId tCreate now =
              (Some (f sub), update_subscriptions ownerId f d1)"
    using g start_def planCode_def f_def by (rule renew_unfold)
  have rh: "renewSubscription30Days_plain d ownerId tCreate now =
              (Some (h sub), update_subscriptions ownerId h d1)"
    using g start_def h_def by (rule renew_plain_unfold)
  have own: "\<And>s. owner_id (f s) = owner_id s" "\<And>s. owner_id (h s) = owner_id s"
    by (simp_all add: f_def h_def)
  have rr: "\<And>s. renewed_row now prev (f s)" "\<And>s. renewed_row now prev (h s)"
    by (simp_all add: f_def h_def renewed_row_def start_def prev_def Let_def)
  have mono: "\<And>s e. prev = Some e \<Longrightarrow> \<exists>e'. current_period_end (f s) = Some e' \<and> e \<le> e'"
             "\<And>s e. prev = Some e \<Longrightarrow> \<exists>e'. current_period_end (h s) = Some e' \<and> e \<le> e'"
    using rr renewed_row_monotone by blast+
  have self: "select_subscription (update_subscriptions ownerId f d1) ownerId = Some (f sub)"
        "select_subscription (update_subscriptions ownerId h d1) ownerId = Some (h sub)"
    using getOrCreate_select[OF g] own by (simp_all add: select_update_subscriptions)
  have rows: "\<And>s. s \<in> set (subscriptions (update_subscriptions ownerId f d1)) \<Longrightarrow>
                 owner_id s = ownerId \<Longrightarrow> renewed_row now prev s"
       "\<And>s. s \<in> set (subscriptions (update_subscriptions ownerId h d1)) \<Longrightarrow>
                 owner_id s = ownerId \<Longrightarrow> renewed_row now prev s"
    using rr by (auto simp add: update_subscriptions_def split: if_splits)
  show ?thesis
    unfolding Let_def rf rh g fst_conv snd_conv prev_def[symmetric]
    using rr mono self rows by blast
qed

text \<open>
  An owner without a row, renewed at instant 10 after the lazy creation at instant 0: the
  created period ends after 30 days, so the renewed one starts there and ends after 60.
\<close>

theorem renewal_periods_witness:
  "\<exists>r. fst (renewSubscription30Days empty_db 7 0 10) = Some r \<and>
       current_period_start r = Some 2592000000 \<and>
       current_period_end r = Some 5184000000 \<and>
       grace_period_end r = Some 5616000000 \<and>
       status r = ''active''"
proof -
  have prev: "current_period_end (fst (getOrCreateOwnerSubscription empty_db 7 0)) = Some 2592000000"
    by (simp add: getOrCreateOwnerSubscription_def select_subscription_def empty_db_def Let_def)
  from renewal_periods[of empty_db 7 0 10] prev
  obtain r where "fst (renewSubscription30Days empty_db 7 0 10) = Some r"
      "renewed_row 10 (Some 2592000000) r"
    by (auto simp add: Let_def)
  then show ?thesis by (auto simp add: renewed_row_def Let_def)
qed

subsection \<open>Enforcement gates\<close>



text \<open>The notification step throws exactly when a notification is due and the owner has no user row.\<close>

lemma notification_step_throws:
  "(\<exists>err. ensureDailySubscriptionExpiredNotification d ownerId row t sqlNow = Inl err) \<longleftrightarrow>
     notification_due row t \<and> \<not> has_user d ownerId"
  by (auto simp add: ensureDailySubscriptionExpiredNotification_def insert_notification_def
      notification_due_def has_user_def computeSubscriptionState_def parsePgTimestamp_def Let_def
      split: option.splits sum.splits)





subsection \<open>Webhook events that match no subscription\<close>

lemma sample_verification:
  "verifyPaypalWebhookSignature sample_env sample_headers (Inr ''token'') (Inr verification_success) =
     Inr True"
  by code_simp

lemma webhook_no_match:
  assumes "verifyPaypalWebhookSignature e headers verifyToken verification = Inr True"
      and "event_subscription_id event = None \<or>
           (\<forall>row\<in>set (subscriptions d). paypal_subscription_id row \<noteq> event_subscription_id event)"
  shows "paypalWebhook d headers event e verifyToken verification token fetchedSub tCreate now tPaid =
           (\<lparr>resp_status = 200, resp_body = Received None\<rparr>, d)"
proof (cases "event_subscription_id event")
  case None
  with assms(1) show ?thesis
    by (simp add: paypalWebhook_def event_subscription_id_def Let_def)
next
  case (Some sid)
  with assms(2) have "find (\<lambda>s. paypal_subscription_id s = Some sid) (subscriptions d) = None"
    by (auto simp add: find_None_iff)
  with Some assms(1) show ?thesis
    by (simp add: paypalWebhook_def event_subscription_id_def Let_def)
qed

text \<open>
  C10. A signature-verified event that carries no subscription identifier, or whose
  identifier is the \<open>paypal_subscription_id\<close> of no stored row, is answered with status 200
  and \<open>received: true\<close>, and the whole database is as before.
\<close>

theorem webhook_unmatched_event:
  assumes "verifyPaypalWebhookSignature e headers verifyToken verification = Inr True"
      and "event_subscription_id event = None \<or>
           (\<forall>row\<in>set (subscriptions d). paypal_subscription_id row \<noteq> event_subscription_id event)"
  shows "paypalWebhook d headers event e verifyToken verification token fetchedSub tCreate now tPaid =
           (\<lparr>resp_status = 200, resp_body = Received None\<rparr>, d)"
  using assms by (rule webhook_no_match)

text \<open>
  An event without a resource, and a payment event of the unknown provider subscription
  \<open>I-404\<close>, both delivered to a database whose only row is linked to \<open>I-1\<close>.
\<close>

theorem webhook_unmatched_event_witness:
  "event_subscription_id sample_event_no_id = None \<and>
   sample_delivery linked_db sample_event_no_id 0 =
     (\<lparr>resp_status = 200, resp_body = Received None\<rparr>, linked_db) \<and>
   event_subscription_id (sale_event ''I-404'' ''TX-1'') = Some ''I-404'' \<and>
   map paypal_subscription_id (subscriptions linked_db) = [Some ''I-1''] \<and>
   sample_delivery linked_db (sale_event ''I-404'' ''TX-1'') 0 =
     (\<lparr>resp_status = 200, resp_body = Received None\<rparr>, linked_db)"
proof -
  have n: "event_subscription_id sample_event_no_id = None"
    by (simp add: event_subscription_id_def sample_event_no_id_def empty_resource_def js_or_def
        truthy_def)
  have s: "event_subscription_id (sale_event ''I-404'' ''TX-1'') = Some ''I-404''"
    by (simp add: event_subscription_id_def sale_event_def empty_resource_def js_or_def
        truthy_def)
  have l: "map paypal_subscription_id (subscriptions linked_db) = [Some ''I-1'']"
    by (simp add: linked_db_def linked_subscription_def empty_db_def)
  then have nomatch: "\<forall>row\<in>set (subscriptions linked_db).
      paypal_subscription_id row \<noteq> event_subscription_id (sale_event ''I-404'' ''TX-1'')"
    unfolding s by (simp add: linked_db_def linked_subscription_def empty_db_def)
  have 1: "sample_delivery linked_db sample_event_no_id 0 =
     (\<lparr>resp_status = 200, resp_body = Received None\<rparr>, linked_db)"
    unfolding sample_delivery_def
    by (rule webhook_unmatched_event[OF sample_verification]) (simp add: n)
  have 2: "sample_delivery linked_db (sale_event ''I-404'' ''TX-1'') 0 =
     (\<lparr>resp_status = 200, resp_body = Received None\<rparr>, linked_db)"
    unfolding sample_delivery_def
    by (rule webhook_unmatched_event[OF sample_verification]) (use nomatch in simp)
  from n s l 1 2 show ?thesis by blast
qed

subsection \<open>Confirm on a status other than ACTIVE\<close>


lemma same_paid_state_update:
  assumes "\<And>s. same_paid_state s (g s)"
  shows "list_all2 same_paid_state (subscriptions d) (subscriptions (update_subscriptions ownerId g d))"
proof -
  have "same_paid_state s s" for s by (simp add: same_paid_state_def)
  with assms show ?thesis
    by (simp add: update_subscriptions_def list_all2_map2 list_all2_same)
qed

lemma same_paid_state_refl: "list_all2 same_paid_state (subscriptions d) (subscriptions d)"
  by (simp add: list_all2_same same_paid_state_def)

lemma update_subscriptions_frame:
  "payments (update_subscriptions ownerId g d) = payments d \<and>
   manual_payment_reports (update_subscriptions ownerId g d) = manual_payment_reports d \<and>
   notifications (update_subscriptions ownerId g d) = notifications d \<and>
   barber_shops (update_subscriptions ownerId g d) = barber_shops d \<and>
   users (update_subscriptions ownerId g d) = users d"
  by (simp add: update_subscriptions_def)

lemma getOrCreate_linked:
  assumes "getOrCreateOwnerSubscription d ownerId t = (sub, d1)"
      and "paypal_subscription_id sub \<noteq> None"
  shows "d1 = d \<and> select_subscription d ownerId = Some sub"
  using assms
  by (auto simp add: getOrCreateOwnerSubscription_def Let_def split: option.splits)

lemma confirm_non_active_db:
  assumes "fetchedSub = Inr ppRes" and "fetched_status ppRes \<noteq> ''ACTIVE''"
  shows "snd (paypalConfirmSubscription d req subscriptionId e token fetchedSub tCreate now) = d \<or>
         (\<exists>ownerId. snd (paypalConfirmSubscription d req subscriptionId e token fetchedSub tCreate now) =
            update_subscriptions ownerId
              (\<lambda>s. s\<lparr>billing_provider := Some ''paypal'',
                      paypal_subscription_status := Some (fetched_status ppRes)\<rparr>) d)"
proof (cases "req_userId req")
  case None
  then show ?thesis by (simp add: paypalConfirmSubscription_def)
next
  case (Some ownerId)
  obtain sub d1 where g: "getOrCreateOwnerSubscription d ownerId tCreate = (sub, d1)"
    by (cases "getOrCreateOwnerSubscription d ownerId tCreate")
  show ?thesis
  proof (cases "truthy subscriptionId \<and>
                str_or_empty (paypal_subscription_id sub) = str_or_empty subscriptionId")
    case True
    then have "paypal_subscription_id sub \<noteq> None"
      by (auto simp add: truthy_def str_or_empty_def split: option.splits)
    with g have "d1 = d" using getOrCreate_linked by blast
    with g Some assms True show ?thesis
      by (auto simp add: paypalConfirmSubscription_def Let_def fetched_status_def
          split: sum.splits)
  next
    case False
    with g Some assms show ?thesis
      by (auto simp add: paypalConfirmSubscription_def Let_def fetched_status_def
          split: sum.splits)
  qed
qed

text \<open>
  C5. When the fetched provider status is anything other than \<open>ACTIVE\<close>, whatever the
  outcome of the confirm step: every subscription row keeps its plan code, pending plan
  code, period start, period end, grace end and status, and differs from the row before at
  most in the stored provider status and the billing provider; no payment, report or
  notification is written. When the request passes the guards of the step (an owner or
  admin, whose row is linked to the confirmed subscription id), the answer is a success and
  the only write stores the provider status, with the billing provider set to \<open>paypal\<close>.
\<close>

theorem confirm_non_active_frame:
  assumes "fetchedSub = Inr ppRes" and "fetched_status ppRes \<noteq> ''ACTIVE''"
  shows
   "(let d' = snd (paypalConfirmSubscription d req subscriptionId e token fetchedSub tCreate now) in
       list_all2 same_paid_state (subscriptions d) (subscriptions d') \<and>
       list_all2 (\<lambda>s s'. s' = s\<lparr>billing_provider := billing_provider s',
                                  paypal_subscription_status := paypal_subscription_status s'\<rparr>)
         (subscriptions d) (subscriptions d') \<and>
       payments d' = payments d \<and> manual_payment_reports d' = manual_payment_reports d \<and>
       notifications d' = notifications d) \<and>
    (\<forall>ownerId sub accessToken.
       req_userId req = Some ownerId \<and> ownerId \<noteq> 0 \<and>
       (str_includes (normalizeRole (req_role req)) ''admin'' \<or>
        str_includes (normalizeRole (req_role req)) ''owner'') \<and>
       truthy subscriptionId \<and> token = Inr accessToken \<and> fetched_ok ppRes \<and>
       fetched_status ppRes \<noteq> [] \<and> select_subscription d ownerId = Some sub \<and>
       paypal_subscription_id sub = subscriptionId \<longrightarrow>
       paypalConfirmSubscription d req subscriptionId e token fetchedSub tCreate now =
         (\<lparr>resp_status = 200, resp_body = Success\<rparr>,
          update_subscriptions ownerId
            (\<lambda>s. s\<lparr>billing_provider := Some ''paypal'',
                    paypal_subscription_status := Some (fetched_status ppRes)\<rparr>) d))"
proof (rule conjI)
  let ?d' = "snd (paypalConfirmSubscription d req subscriptionId e token fetchedSub tCreate now)"
  let ?g = "\<lambda>s. s\<lparr>billing_provider := Some ''paypal'',
                   paypal_subscription_status := Some (fetched_status ppRes)\<rparr>"
  have pres: "same_paid_state s (?g s)" for s by (simp add: same_paid_state_def)
  have two: "list_all2 (\<lambda>s s'. s' = s\<lparr>billing_provider := billing_provider s',
                                  paypal_subscription_status := paypal_subscription_status s'\<rparr>)
         (subscriptions d0) (subscriptions (update_subscriptions ownerId ?g d0))" for d0 ownerId
    by (simp add: update_subscriptions_def list_all2_map2 list_all2_same)
  have two0: "list_all2 (\<lambda>s s'. s' = s\<lparr>billing_provider := billing_provider s',
                                  paypal_subscription_status := paypal_subscription_status s'\<rparr>)
         (subscriptions d) (subscriptions d)"
    by (simp add: list_all2_same)
  from confirm_non_active_db[OF assms, of d req subscriptionId e token tCreate now]
  show "let d' = ?d' in
       list_all2 same_paid_state (subscriptions d) (subscriptions d') \<and>
       list_all2 (\<lambda>s s'. s' = s\<lparr>billing_provider := billing_provider s',
                                  paypal_subscription_status := paypal_subscription_status s'\<rparr>)
         (subscriptions d) (subscriptions d') \<and>
       payments d' = payments d \<and> manual_payment_reports d' = manual_payment_reports d \<and>
       notifications d' = notifications d"
    unfolding Let_def
  proof (elim disjE exE)
    assume "?d' = d"
    then show "list_all2 same_paid_state (subscriptions d) (subscriptions ?d') \<and>
       list_all2 (\<lambda>s s'. s' = s\<lparr>billing_provider := billing_provider s',
                                  paypal_subscription_status := paypal_subscription_status s'\<rparr>)
         (subscriptions d) (subscriptions ?d') \<and>
       payments ?d' = payments d \<and> manual_payment_reports ?d' = manual_payment_reports d \<and>
       notifications ?d' = notifications d"
      using same_paid_state_refl[of d] two0 by simp
  next
    fix ownerId assume "?d' = update_subscriptions ownerId ?g d"
    then show "list_all2 same_paid_state (subscriptions d) (subscriptions ?d') \<and>
       list_all2 (\<lambda>s s'. s' = s\<lparr>billing_provider := billing_provider s',
                                  paypal_subscription_status := paypal_subscription_status s'\<rparr>)
         (subscriptions d) (subscriptions ?d') \<and>
       payments ?d' = payments d \<and> manual_payment_reports ?d' = manual_payment_reports d \<and>
       notifications ?d' = notifications d"
      using same_paid_state_update[of ?g d ownerId, OF pres] two[of d ownerId]
        update_subscriptions_frame[of ownerId ?g d] by simp
  qed
next
  show "\<forall>ownerId sub accessToken.
       req_userId req = Some ownerId \<and> ownerId \<noteq> 0 \<and>
       (str_includes (normalizeRole (req_role req)) ''admin'' \<or>
        str_includes (normalizeRole (req_role req)) ''owner'') \<and>
       truthy subscriptionId \<and> token = Inr accessToken \<and> fetched_ok ppRes \<and>
       fetched_status ppRes \<noteq> [] \<and> select_subscription d ownerId = Some sub \<and>
       paypal_subscription_id sub = subscriptionId \<longrightarrow>
       paypalConfirmSubscription d req subscriptionId e token fetchedSub tCreate now =
         (\<lparr>resp_status = 200, resp_body = Success\<rparr>,
          update_subscriptions ownerId
            (\<lambda>s. s\<lparr>billing_provider := Some ''paypal'',
                    paypal_subscription_status := Some (fetched_status ppRes)\<rparr>) d)"
    using assms
    by (auto simp add: paypalConfirmSubscription_def Let_def fetched_status_def no_id_def
        getOrCreateOwnerSubscription_def)
qed

text \<open>
  Owner 7, linked to \<open>I-1\<close> on plan \<open>premium\<close>, confirms while the provider reports
  \<open>SUSPENDED\<close>: the row changes in its provider status only.
\<close>

theorem confirm_non_active_frame_witness:
  "fetched_status (fetched_subscription ''SUSPENDED'') = ''SUSPENDED'' \<and>
   paypalConfirmSubscription linked_db owner_request (Some ''I-1'') sample_env (Inr ''token'')
       (Inr (fetched_subscription ''SUSPENDED'')) 0 500 =
     (\<lparr>resp_status = 200, resp_body = Success\<rparr>,
      linked_db\<lparr>subscriptions :=
        [linked_subscription\<lparr>paypal_subscription_status := Some ''SUSPENDED''\<rparr>]\<rparr>) \<and>
   same_paid_state linked_subscription
     (linked_subscription\<lparr>paypal_subscription_status := Some ''SUSPENDED''\<rparr>)"
proof -
  have st: "fetched_status (fetched_subscription ''SUSPENDED'') = ''SUSPENDED''"
    by code_simp
  have na: "fetched_status (fetched_subscription ''SUSPENDED'') \<noteq> ''ACTIVE''"
    unfolding st by simp
  have role: "str_includes (normalizeRole (req_role owner_request)) ''owner''"
    by code_simp
  have sel: "select_subscription linked_db 7 = Some linked_subscription"
    by (simp add: select_subscription_def linked_db_def empty_db_def linked_subscription_def
        sample_subscription_def)
  have pid: "paypal_subscription_id linked_subscription = Some ''I-1''"
    by (simp add: linked_subscription_def)
  have upd: "update_subscriptions 7
            (\<lambda>s. s\<lparr>billing_provider := Some ''paypal'',
                    paypal_subscription_status := Some ''SUSPENDED''\<rparr>) linked_db =
        linked_db\<lparr>subscriptions :=
          [linked_subscription\<lparr>paypal_subscription_status := Some ''SUSPENDED''\<rparr>]\<rparr>"
    by (simp add: update_subscriptions_def linked_db_def empty_db_def linked_subscription_def
        sample_subscription_def)
  have "paypalConfirmSubscription linked_db owner_request (Some ''I-1'') sample_env (Inr ''token'')
       (Inr (fetched_subscription ''SUSPENDED'')) 0 500 =
     (\<lparr>resp_status = 200, resp_body = Success\<rparr>,
      update_subscriptions 7
            (\<lambda>s. s\<lparr>billing_provider := Some ''paypal'',
                    paypal_subscription_status := Some ''SUSPENDED''\<rparr>) linked_db)"
    using confirm_non_active_frame[OF refl na, of linked_db owner_request "Some ''I-1''"
        sample_env "Inr ''token''" 0 500] role sel pid st
    by (simp add: owner_request_def truthy_def fetched_subscription_def)
  moreover have "same_paid_state linked_subscription
     (linked_subscription\<lparr>paypal_subscription_status := Some ''SUSPENDED''\<rparr>)"
    by (simp add: same_paid_state_def)
  ultimately show ?thesis using st upd by simp
qed

subsection \<open>Manual reports are decided once\<close>

lemma select_update_reports:
  assumes "select_report d rid = Some rep" and "\<And>r. rep_id (g r) = rep_id r"
  shows "select_report (update_reports rid g d) rid = Some (g rep)"
  using find_map_update[where P = "\<lambda>r. rep_id r = rid" and f = g,
      OF assms(1)[unfolded select_report_def]] assms(2)
  by (simp add: select_report_def update_reports_def)

lemma renew_reports_frame:
  "manual_payment_reports (snd (renewSubscription30Days d ownerId tCreate now)) =
     manual_payment_reports d"
proof -
  obtain sub d1 where g: "getOrCreateOwnerSubscription d ownerId tCreate = (sub, d1)"
    by (cases "getOrCreateOwnerSubscription d ownerId tCreate")
  from renew_unfold[OF g refl refl refl, of now] getOrCreate_frame[OF g]
  show ?thesis by (simp add: update_subscriptions_def)
qed

lemma admin_error_status:
  "requireAdmin req = Some err \<Longrightarrow> resp_status (error_response err) = 403"
  by (auto simp add: requireAdmin_def error_response_def split: if_splits)

lemma approve_success:
  assumes "resp_status (fst (approveManualPaymentReport d req rid tCreate now sqlNow)) = 200"
  shows "\<exists>rep. select_report d rid = Some rep \<and> toLowerCase (rep_status rep) = ''pending'' \<and>
           select_report (snd (approveManualPaymentReport d req rid tCreate now sqlNow)) rid =
             Some (rep\<lparr>rep_status := ''approved'', approved_by := req_userId req,
                       decided_at := Some sqlNow\<rparr>)"
proof -
  from assms have adm: "requireAdmin req = None"
    using admin_error_status[of req]
    by (cases "requireAdmin req") (auto simp add: approveManualPaymentReport_def)
  with assms obtain rep where rep: "select_report d rid = Some rep"
    by (cases "select_report d rid") (auto simp add: approveManualPaymentReport_def Let_def)
  with assms adm have pend: "toLowerCase (rep_status rep) = ''pending''"
    by (auto simp add: approveManualPaymentReport_def Let_def split: if_splits)
  obtain renewed d1 where r: "renewSubscription30Days d (rep_owner_id rep) tCreate now = (renewed, d1)"
    by (cases "renewSubscription30Days d (rep_owner_id rep) tCreate now")
  have reps: "manual_payment_reports d1 = manual_payment_reports d"
    using renew_reports_frame[of d "rep_owner_id rep" tCreate now] r by simp
  define g where "g = (\<lambda>r::report. r\<lparr>rep_status := ''approved'', approved_by := req_userId req,
                              decided_at := Some sqlNow\<rparr>)"
  have own: "\<And>r. rep_id (g r) = rep_id r" by (simp add: g_def)
  have "select_report (d1\<lparr>payments := ps\<rparr>) rid = Some rep" for ps
    using rep reps by (simp add: select_report_def)
  then have "select_report (update_reports rid g (d1\<lparr>payments := ps\<rparr>)) rid = Some (g rep)" for ps
    using own by (rule select_update_reports)
  then show ?thesis
    using adm rep pend r
    by (simp add: approveManualPaymentReport_def Let_def g_def)
qed

lemma reject_success:
  assumes "resp_status (fst (rejectManualPaymentReport d req rid sqlNow)) = 200"
  shows "\<exists>rep. select_report d rid = Some rep \<and> toLowerCase (rep_status rep) = ''pending'' \<and>
           select_report (snd (rejectManualPaymentReport d req rid sqlNow)) rid =
             Some (rep\<lparr>rep_status := ''rejected'', rejected_by := req_userId req,
                       decided_at := Some sqlNow\<rparr>)"
proof -
  from assms have adm: "requireAdmin req = None"
    using admin_error_status[of req]
    by (cases "requireAdmin req") (auto simp add: rejectManualPaymentReport_def)
  with assms obtain rep where rep: "select_report d rid = Some rep"
    by (cases "select_report d rid") (auto simp add: rejectManualPaymentReport_def Let_def)
  with assms adm have pend: "toLowerCase (rep_status rep) = ''pending''"
    by (auto simp add: rejectManualPaymentReport_def Let_def split: if_splits)
  define g where "g = (\<lambda>r::report. r\<lparr>rep_status := ''rejected'', rejected_by := req_userId req,
                              decided_at := Some sqlNow\<rparr>)"
  have own: "\<And>r. rep_id (g r) = rep_id r" by (simp add: g_def)
  have "select_report (update_reports rid g d) rid = Some (g rep)"
    using rep own by (rule select_update_reports)
  then show ?thesis
    using adm rep pend
    by (simp add: rejectManualPaymentReport_def Let_def g_def)
qed

lemma decided_not_pending:
  "toLowerCase ''approved'' \<noteq> ''pending''" "toLowerCase ''rejected'' \<noteq> ''pending''"
  by (simp_all add: toLowerCase_def)

lemma decision_on_decided:
  assumes "select_report d rid = Some rep" and "toLowerCase (rep_status rep) \<noteq> ''pending''"
  shows "snd (approveManualPaymentReport d req rid tCreate now sqlNow) = d"
    and "snd (rejectManualPaymentReport d req rid sqlNow) = d"
    and "requireAdmin req = None \<Longrightarrow>
         approveManualPaymentReport d req rid tCreate now sqlNow =
           (\<lparr>resp_status = 400, resp_body = Message ''Este reporte ya fue procesado''\<rparr>, d)"
    and "requireAdmin req = None \<Longrightarrow>
         rejectManualPaymentReport d req rid sqlNow =
           (\<lparr>resp_status = 400, resp_body = Message ''Este reporte ya fue procesado''\<rparr>, d)"
  using assms
  by (auto simp add: approveManualPaymentReport_def rejectManualPaymentReport_def Let_def
      split: option.splits)

lemma renew_payments_frame:
  "payments (snd (renewSubscription30Days d ownerId tCreate now)) = payments d"
proof -
  obtain sub d1 where g: "getOrCreateOwnerSubscription d ownerId tCreate = (sub, d1)"
    by (cases "getOrCreateOwnerSubscription d ownerId tCreate")
  from renew_unfold[OF g refl refl refl, of now] getOrCreate_frame[OF g]
  show ?thesis by (simp add: update_subscriptions_def)
qed

lemma approve_pending_succeeds:
  assumes "requireAdmin req = None" and "select_report d rid = Some rep"
      and "toLowerCase (rep_status rep) = ''pending''"
  shows "resp_status (fst (approveManualPaymentReport d req rid tCreate now sqlNow)) = 200"
    and "\<exists>row. payments (snd (approveManualPaymentReport d req rid tCreate now sqlNow)) =
                 payments d @ [row] \<and>
               pay_provider row = ''manual'' \<and> pay_owner_id row = rep_owner_id rep"
  using assms renew_payments_frame[of d "rep_owner_id rep" tCreate now]
  by (auto simp add: approveManualPaymentReport_def Let_def update_reports_def split: prod.splits)

lemma reject_pending_succeeds:
  assumes "requireAdmin req = None" and "select_report d rid = Some rep"
      and "toLowerCase (rep_status rep) = ''pending''"
  shows "rejectManualPaymentReport d req rid sqlNow =
          (\<lparr>resp_status = 200,
            resp_body = ReportBody (Some (rep\<lparr>rep_status := ''rejected'',
                                               rejected_by := req_userId req,
                                               decided_at := Some sqlNow\<rparr>))\<rparr>,
           update_reports rid
             (\<lambda>r. r\<lparr>rep_status := ''rejected'', rejected_by := req_userId req,
                     decided_at := Some sqlNow\<rparr>) d)"
proof -
  have "select_report (update_reports rid
             (\<lambda>r. r\<lparr>rep_status := ''rejected'', rejected_by := req_userId req,
                     decided_at := Some sqlNow\<rparr>) d) rid =
        Some (rep\<lparr>rep_status := ''rejected'', rejected_by := req_userId req,
                   decided_at := Some sqlNow\<rparr>)"
    using assms(2) by (rule select_update_reports) simp
  with assms show ?thesis
    by (simp add: rejectManualPaymentReport_def Let_def)
qed

text \<open>
  C8. A decision by an admin on a pending report succeeds: an approval answers 200,
  writes one ledger row of provider \<open>manual\<close> for the report's owner and leaves the report
  approved; a rejection answers 200 with the report rejected and writes nothing else;
  the request's user is stored as \<open>approved_by\<close> or \<open>rejected_by\<close> and \<open>decided_at\<close> is
  set. A decision that succeeds found the report pending. After a successful decision,
  every further approval or rejection of the same report, by anyone and at any time,
  leaves the whole database as it is (no payment row, the report and the subscriptions
  unchanged), and for an admin it is answered with status 400 and the already-processed
  message.
\<close>

theorem manual_report_decided_once:
  "(\<forall>rep. requireAdmin req = None \<and> select_report d rid = Some rep \<and>
          toLowerCase (rep_status rep) = ''pending'' \<longrightarrow>
      resp_status (fst (approveManualPaymentReport d req rid tCreate now sqlNow)) = 200 \<and>
      (\<exists>row. payments (snd (approveManualPaymentReport d req rid tCreate now sqlNow)) =
                 payments d @ [row] \<and>
             pay_provider row = ''manual'' \<and> pay_owner_id row = rep_owner_id rep) \<and>
      rejectManualPaymentReport d req rid sqlNow =
        (\<lparr>resp_status = 200,
          resp_body = ReportBody (Some (rep\<lparr>rep_status := ''rejected'',
                                             rejected_by := req_userId req,
                                             decided_at := Some sqlNow\<rparr>))\<rparr>,
         update_reports rid
           (\<lambda>r. r\<lparr>rep_status := ''rejected'', rejected_by := req_userId req,
                   decided_at := Some sqlNow\<rparr>) d)) \<and>
   (resp_status (fst (approveManualPaymentReport d req rid tCreate now sqlNow)) = 200 \<longrightarrow>
      (\<exists>rep. select_report d rid = Some rep \<and> toLowerCase (rep_status rep) = ''pending'' \<and>
         select_report (snd (approveManualPaymentReport d req rid tCreate now sqlNow)) rid =
           Some (rep\<lparr>rep_status := ''approved'', approved_by := req_userId req,
                     decided_at := Some sqlNow\<rparr>))) \<and>
   (resp_status (fst (rejectManualPaymentReport d req rid sqlNow)) = 200 \<longrightarrow>
      (\<exists>rep. select_report d rid = Some rep \<and> toLowerCase (rep_status rep) = ''pending'' \<and>
         select_report (snd (rejectManualPaymentReport d req rid sqlNow)) rid =
           Some (rep\<lparr>rep_status := ''rejected'', rejected_by := req_userId req,
                     decided_at := Some sqlNow\<rparr>))) \<and>
   (\<forall>d'. (resp_status (fst (approveManualPaymentReport d req rid tCreate now sqlNow)) = 200 \<and>
           d' = snd (approveManualPaymentReport d req rid tCreate now sqlNow)) \<or>
          (resp_status (fst (rejectManualPaymentReport d req rid sqlNow)) = 200 \<and>
           d' = snd (rejectManualPaymentReport d req rid sqlNow)) \<longrightarrow>
      (\<forall>req2 t1 t2 t3.
         snd (approveManualPaymentReport d' req2 rid t1 t2 t3) = d' \<and>
         snd (rejectManualPaymentReport d' req2 rid t3) = d' \<and>
         (requireAdmin req2 = None \<longrightarrow>
            approveManualPaymentReport d' req2 rid t1 t2 t3 =
              (\<lparr>resp_status = 400, resp_body = Message ''Este reporte ya fue procesado''\<rparr>, d') \<and>
            rejectManualPaymentReport d' req2 rid t3 =
              (\<lparr>resp_status = 400, resp_body = Message ''Este reporte ya fue procesado''\<rparr>, d'))))"
proof (intro conjI impI allI)
  fix rep
  assume p: "requireAdmin req = None \<and> select_report d rid = Some rep \<and>
          toLowerCase (rep_status rep) = ''pending''"
  then have a: "requireAdmin req = None" and b: "select_report d rid = Some rep"
    and c: "toLowerCase (rep_status rep) = ''pending''"
    by simp_all
  show "resp_status (fst (approveManualPaymentReport d req rid tCreate now sqlNow)) = 200"
    using a b c by (rule approve_pending_succeeds(1))
  show "\<exists>row. payments (snd (approveManualPaymentReport d req rid tCreate now sqlNow)) =
                 payments d @ [row] \<and>
             pay_provider row = ''manual'' \<and> pay_owner_id row = rep_owner_id rep"
    using a b c by (rule approve_pending_succeeds(2))
  show "rejectManualPaymentReport d req rid sqlNow =
        (\<lparr>resp_status = 200,
          resp_body = ReportBody (Some (rep\<lparr>rep_status := ''rejected'',
                                             rejected_by := req_userId req,
                                             decided_at := Some sqlNow\<rparr>))\<rparr>,
         update_reports rid
           (\<lambda>r. r\<lparr>rep_status := ''rejected'', rejected_by := req_userId req,
                   decided_at := Some sqlNow\<rparr>) d)"
    using a b c by (rule reject_pending_succeeds)
next
  assume "resp_status (fst (approveManualPaymentReport d req rid tCreate now sqlNow)) = 200"
  then show "\<exists>rep. select_report d rid = Some rep \<and> toLowerCase (rep_status rep) = ''pending'' \<and>
         select_report (snd (approveManualPaymentReport d req rid tCreate now sqlNow)) rid =
           Some (rep\<lparr>rep_status := ''approved'', approved_by := req_userId req,
                     decided_at := Some sqlNow\<rparr>)"
    by (rule approve_success)
next
  assume "resp_status (fst (rejectManualPaymentReport d req rid sqlNow)) = 200"
  then show "\<exists>rep. select_report d rid = Some rep \<and> toLowerCase (rep_status rep) = ''pending'' \<and>
         select_report (snd (rejectManualPaymentReport d req rid sqlNow)) rid =
           Some (rep\<lparr>rep_status := ''rejected'', rejected_by := req_userId req,
                     decided_at := Some sqlNow\<rparr>)"
    by (rule reject_success)
next
  fix d' req2 t1 t2 t3
  assume a: "(resp_status (fst (approveManualPaymentReport d req rid tCreate now sqlNow)) = 200 \<and>
           d' = snd (approveManualPaymentReport d req rid tCreate now sqlNow)) \<or>
          (resp_status (fst (rejectManualPaymentReport d req rid sqlNow)) = 200 \<and>
           d' = snd (rejectManualPaymentReport d req rid sqlNow))"
  then obtain rep' where rep': "select_report d' rid = Some rep'"
      "toLowerCase (rep_status rep') \<noteq> ''pending''"
    using approve_success[of d req rid tCreate now sqlNow] reject_success[of d req rid sqlNow]
      decided_not_pending
    by (elim disjE conjE) auto
  show "snd (approveManualPaymentReport d' req2 rid t1 t2 t3) = d'"
    using rep' by (rule decision_on_decided(1))
  show "snd (rejectManualPaymentReport d' req2 rid t3) = d'"
    using rep' by (rule decision_on_decided(2))
  assume adm: "requireAdmin req2 = None"
  show "approveManualPaymentReport d' req2 rid t1 t2 t3 =
              (\<lparr>resp_status = 400, resp_body = Message ''Este reporte ya fue procesado''\<rparr>, d')"
    using rep' adm by (rule decision_on_decided(3))
  show "rejectManualPaymentReport d' req2 rid t3 =
              (\<lparr>resp_status = 400, resp_body = Message ''Este reporte ya fue procesado''\<rparr>, d')"
    using rep' adm by (rule decision_on_decided(4))
qed

text \<open>
  Admin 1 decides the pending report 1 of owner 7 at instant 100. Approved: the report
  carries the approval, one \<open>manual\<close> ledger row is written, and a later rejection and a
  second approval are refused and change nothing. Rejected instead: the report carries
  the rejection, nothing else is written, and a later approval and a second rejection
  are refused and change nothing.
\<close>

theorem manual_report_decided_once_witness:
  "requireAdmin admin_request = None \<and>
   select_report pending_report_db 1 = Some sample_report \<and>
   toLowerCase (rep_status sample_report) = ''pending'' \<and>
   resp_status (fst (approveManualPaymentReport pending_report_db admin_request 1 0 100 100)) = 200 \<and>
   select_report (snd (approveManualPaymentReport pending_report_db admin_request 1 0 100 100)) 1 =
     Some (sample_report\<lparr>rep_status := ''approved'', approved_by := Some 1,
                          decided_at := Some 100\<rparr>) \<and>
   (\<exists>row. payments (snd (approveManualPaymentReport pending_report_db admin_request 1 0 100 100)) =
            [row] \<and> pay_provider row = ''manual'' \<and> pay_owner_id row = 7) \<and>
   rejectManualPaymentReport
       (snd (approveManualPaymentReport pending_report_db admin_request 1 0 100 100))
       admin_request 1 200 =
     (\<lparr>resp_status = 400, resp_body = Message ''Este reporte ya fue procesado''\<rparr>,
      snd (approveManualPaymentReport pending_report_db admin_request 1 0 100 100)) \<and>
   approveManualPaymentReport
       (snd (approveManualPaymentReport pending_report_db admin_request 1 0 100 100))
       admin_request 1 0 200 200 =
     (\<lparr>resp_status = 400, resp_body = Message ''Este reporte ya fue procesado''\<rparr>,
      snd (approveManualPaymentReport pending_report_db admin_request 1 0 100 100)) \<and>
   rejectManualPaymentReport pending_report_db admin_request 1 100 =
     (\<lparr>resp_status = 200,
       resp_body = ReportBody (Some (sample_report\<lparr>rep_status := ''rejected'',
                                        rejected_by := Some 1, decided_at := Some 100\<rparr>))\<rparr>,
      pending_report_db\<lparr>manual_payment_reports :=
        [sample_report\<lparr>rep_status := ''rejected'', rejected_by := Some 1,
                        decided_at := Some 100\<rparr>]\<rparr>) \<and>
   approveManualPaymentReport
       (snd (rejectManualPaymentReport pending_report_db admin_request 1 100))
       admin_request 1 0 200 200 =
     (\<lparr>resp_status = 400, resp_body = Message ''Este reporte ya fue procesado''\<rparr>,
      snd (rejectManualPaymentReport pending_report_db admin_request 1 100)) \<and>
   rejectManualPaymentReport
       (snd (rejectManualPaymentReport pending_report_db admin_request 1 100))
       admin_request 1 200 =
     (\<lparr>resp_status = 400, resp_body = Message ''Este reporte ya fue procesado''\<rparr>,
      snd (rejectManualPaymentReport pending_report_db admin_request 1 100))"
proof -
  let ?a = "snd (approveManualPaymentReport pending_report_db admin_request 1 0 100 100)"
  let ?r = "snd (rejectManualPaymentReport pending_report_db admin_request 1 100)"
  have adm: "requireAdmin admin_request = None"
    by code_simp
  have sel: "select_report pending_report_db 1 = Some sample_report"
    by (simp add: select_report_def pending_report_db_def sample_db_def empty_db_def
        sample_report_def)
  have pend: "toLowerCase (rep_status sample_report) = ''pending''"
    by code_simp
  have uid: "req_userId admin_request = Some 1" by (simp add: admin_request_def)
  have own: "rep_owner_id sample_report = 7" by (simp add: sample_report_def)
  have nopay: "payments pending_report_db = []"
    by (simp add: pending_report_db_def sample_db_def empty_db_def)
  have upd: "update_reports 1
           (\<lambda>r. r\<lparr>rep_status := ''rejected'', rejected_by := Some 1, decided_at := Some 100\<rparr>)
           pending_report_db =
         pending_report_db\<lparr>manual_payment_reports :=
           [sample_report\<lparr>rep_status := ''rejected'', rejected_by := Some 1,
                           decided_at := Some 100\<rparr>]\<rparr>"
    by (simp add: update_reports_def pending_report_db_def sample_db_def empty_db_def
        sample_report_def)
  note once = manual_report_decided_once[of admin_request pending_report_db 1 0 100 100]
  from once adm sel pend
  have fwd: "resp_status (fst (approveManualPaymentReport pending_report_db admin_request 1 0 100 100)) = 200 \<and>
      (\<exists>row. payments ?a = payments pending_report_db @ [row] \<and>
             pay_provider row = ''manual'' \<and> pay_owner_id row = rep_owner_id sample_report) \<and>
      rejectManualPaymentReport pending_report_db admin_request 1 100 =
        (\<lparr>resp_status = 200,
          resp_body = ReportBody (Some (sample_report\<lparr>rep_status := ''rejected'',
                                             rejected_by := req_userId admin_request,
                                             decided_at := Some 100\<rparr>))\<rparr>,
         update_reports 1
           (\<lambda>r. r\<lparr>rep_status := ''rejected'', rejected_by := req_userId admin_request,
                   decided_at := Some 100\<rparr>) pending_report_db)"
    by blast
  then have ok: "resp_status (fst (approveManualPaymentReport pending_report_db admin_request 1 0 100 100)) = 200"
    by blast
  from fwd have row: "\<exists>row. payments ?a = [row] \<and> pay_provider row = ''manual'' \<and> pay_owner_id row = 7"
    unfolding nopay own by simp
  from fwd have rej: "rejectManualPaymentReport pending_report_db admin_request 1 100 =
     (\<lparr>resp_status = 200,
       resp_body = ReportBody (Some (sample_report\<lparr>rep_status := ''rejected'',
                                        rejected_by := Some 1, decided_at := Some 100\<rparr>))\<rparr>,
      pending_report_db\<lparr>manual_payment_reports :=
        [sample_report\<lparr>rep_status := ''rejected'', rejected_by := Some 1,
                        decided_at := Some 100\<rparr>]\<rparr>)"
    unfolding uid upd by blast
  from rej have rok: "resp_status (fst (rejectManualPaymentReport pending_report_db admin_request 1 100)) = 200"
    by simp
  from once ok sel have 1: "select_report ?a 1 =
     Some (sample_report\<lparr>rep_status := ''approved'', approved_by := Some 1,
                          decided_at := Some 100\<rparr>)"
    by (simp add: uid)
  from once ok adm have 2: "rejectManualPaymentReport ?a admin_request 1 200 =
     (\<lparr>resp_status = 400, resp_body = Message ''Este reporte ya fue procesado''\<rparr>, ?a)"
    and 3: "approveManualPaymentReport ?a admin_request 1 0 200 200 =
     (\<lparr>resp_status = 400, resp_body = Message ''Este reporte ya fue procesado''\<rparr>, ?a)"
    by blast+
  from once rok adm have 4: "approveManualPaymentReport ?r admin_request 1 0 200 200 =
     (\<lparr>resp_status = 400, resp_body = Message ''Este reporte ya fue procesado''\<rparr>, ?r)"
    and 5: "rejectManualPaymentReport ?r admin_request 1 200 =
     (\<lparr>resp_status = 400, resp_body = Message ''Este reporte ya fue procesado''\<rparr>, ?r)"
    by blast+
  from adm sel pend ok row rej 1 2 3 4 5 show ?thesis by blast
qed

subsection \<open>Webhook: the two syncs\<close>

lemma syncPlanCode_eq:
  "syncPlanCode d ownerId e token fetchedSub =
     (case synced_plan_code e token fetchedSub of
        None \<Rightarrow> d
      | Some pc \<Rightarrow> update_subscriptions ownerId (\<lambda>s. s\<lparr>plan_code := Some pc\<rparr>) d)"
  by (auto simp add: syncPlanCode_def synced_plan_code_def coalesce_def
      split: sum.splits option.splits)

lemma update_subscriptions_boundaries:
  assumes "\<And>s. current_period_start (g s) = current_period_start s \<and>
               current_period_end (g s) = current_period_end s \<and>
               grace_period_end (g s) = grace_period_end s \<and> owner_id (g s) = owner_id s"
  shows "period_boundaries (update_subscriptions ownerId g d) = period_boundaries d"
  using assms by (simp add: period_boundaries_def update_subscriptions_def)

lemma syncs_frame:
  "payments (syncSubscriptionStatus d ownerId et r) = payments d \<and>
   period_boundaries (syncSubscriptionStatus d ownerId et r) = period_boundaries d \<and>
   payments (syncPlanCode d ownerId e token fetchedSub) = payments d \<and>
   period_boundaries (syncPlanCode d ownerId e token fetchedSub) = period_boundaries d"
  by (auto simp add: syncSubscriptionStatus_def syncPlanCode_eq Let_def
      update_subscriptions_frame update_subscriptions_boundaries split: option.splits)

lemma usage_update_subscriptions:
  "computeOwnerUsageCounts (update_subscriptions ownerId g d) o2 = computeOwnerUsageCounts d o2"
  by (simp add: computeOwnerUsageCounts_def update_subscriptions_def)

lemma syncs_usage:
  "computeOwnerUsageCounts (syncPlanCode (syncSubscriptionStatus d ownerId et r) ownerId e token fetchedSub) o2
     = computeOwnerUsageCounts d o2"
  by (auto simp add: syncSubscriptionStatus_def syncPlanCode_eq Let_def
      usage_update_subscriptions split: option.splits)

lemma syncs_select:
  assumes "select_subscription d ownerId = Some row"
  shows "\<exists>row2. select_subscription
            (syncPlanCode (syncSubscriptionStatus d ownerId et r) ownerId e token fetchedSub) ownerId
              = Some row2 \<and>
           pending_plan_code row2 = pending_plan_code row \<and>
           plan_code row2 = coalesce (synced_plan_code e token fetchedSub) (plan_code row) \<and>
           current_period_end row2 = current_period_end row"
proof -
  have "\<exists>row1. select_subscription (syncSubscriptionStatus d ownerId et r) ownerId = Some row1 \<and>
      pending_plan_code row1 = pending_plan_code row \<and> plan_code row1 = plan_code row \<and>
      current_period_end row1 = current_period_end row"
  proof (cases "prefix ''BILLING.SUBSCRIPTION.'' et")
    case True
    define x where "x = (if toUpperCase (str_or_empty (res_status r)) = []
               then et else toUpperCase (str_or_empty (res_status r)))"
    from True select_update_subscriptions[OF assms,
        of "\<lambda>s. s\<lparr>paypal_subscription_status := Some x, billing_provider := Some ''paypal''\<rparr>"]
    show ?thesis by (simp add: syncSubscriptionStatus_def Let_def x_def)
  next
    case False
    with assms show ?thesis by (simp add: syncSubscriptionStatus_def)
  qed
  then obtain row1 where r1: "select_subscription (syncSubscriptionStatus d ownerId et r) ownerId = Some row1"
      "pending_plan_code row1 = pending_plan_code row" "plan_code row1 = plan_code row"
      "current_period_end row1 = current_period_end row"
    by blast
  show ?thesis
  proof (cases "synced_plan_code e token fetchedSub")
    case None
    with r1 show ?thesis by (simp add: syncPlanCode_eq coalesce_def)
  next
    case (Some pc)
    with r1 select_update_subscriptions[OF r1(1), of "\<lambda>s. s\<lparr>plan_code := Some pc\<rparr>"]
    show ?thesis by (simp add: syncPlanCode_eq coalesce_def)
  qed
qed

lemma getOrCreate_existing:
  "select_subscription d ownerId = Some row \<Longrightarrow>
   getOrCreateOwnerSubscription d ownerId t = (row, d)"
  by (simp add: getOrCreateOwnerSubscription_def)

lemma find_owner:
  "find P xs = Some x \<Longrightarrow> \<exists>y. find (\<lambda>s. owner_id s = owner_id x) xs = Some y"
  by (induction xs) (auto split: if_splits)

lemma webhook_payment_unfold:
  assumes v: "verifyPaypalWebhookSignature e headers verifyToken verification = Inr True"
      and sid: "event_subscription_id event = Some sid"
      and sub: "find (\<lambda>s. paypal_subscription_id s = Some sid) (subscriptions d) = Some subRow"
      and pay: "isPaymentSuccessEvent (toUpperCase (str_or_empty (event_type event)))"
      and tx: "event_transaction_id event = Some tx"
      and new: "ledger_rows d ''paypal_subscription'' tx = []"
      and paid: "paid_at_iso (event_paid_at event) tPaid = Inr paid"
      and r: "r = (case event_resource event of None \<Rightarrow> empty_resource | Some r \<Rightarrow> r)"
      and et: "et = toUpperCase (str_or_empty (event_type event))"
      and d2: "d2 = syncPlanCode (syncSubscriptionStatus d (owner_id subRow) et r)
                      (owner_id subRow) e token fetchedSub"
  shows "paypalWebhook d headers event e verifyToken verification token fetchedSub tCreate now tPaid =
          (\<lparr>resp_status = 200,
            resp_body = Received (Some (fst (renewSubscription30Days d2 (owner_id subRow) tCreate now) \<noteq> None))\<rparr>,
           update_subscriptions (owner_id subRow)
             (\<lambda>s. s\<lparr>status := ''active'', billing_provider := Some ''paypal''\<rparr>)
             ((snd (renewSubscription30Days d2 (owner_id subRow) tCreate now))
                \<lparr>payments := payments (snd (renewSubscription30Days d2 (owner_id subRow) tCreate now)) @
                   [webhookPaymentRow (owner_id subRow) et sid tx event r paid]\<rparr>))"
proof -
  have ex: "filter (\<lambda>p. pay_provider p = ''paypal_subscription'' \<and> provider_payment_id p = Some tx)
              (payments d2) = []"
    using new syncs_frame[of d "owner_id subRow" et r] 
      syncs_frame[of "syncSubscriptionStatus d (owner_id subRow) et r" "owner_id subRow" et r e token fetchedSub]
    by (simp add: d2 ledger_rows_def)
  obtain renewed d3 where rn: "renewSubscription30Days d2 (owner_id subRow) tCreate now = (renewed, d3)"
    by (cases "renewSubscription30Days d2 (owner_id subRow) tCreate now")
  show ?thesis
    using v sid sub pay tx paid ex rn
    unfolding paypalWebhook_def event_subscription_id_def event_transaction_id_def
      event_paid_at_def r et d2
    by (simp add: Let_def)
qed

subsection \<open>Webhook: the plan code of a renewal\<close>

lemma select_subscription_payments:
  "select_subscription (d\<lparr>payments := ps\<rparr>) ownerId = select_subscription d ownerId"
  by (simp add: select_subscription_def)

text \<open>
  C7, as the code has it. When a verified payment event of a linked subscription, with a
  transaction id not yet in the ledger, reaches the renewal, the plan code stored on the
  owner's row is: the pending plan code when there is one; else the row's current plan
  code, as the webhook's plan sync left it; else the code of the tier implied by the
  owner's current usage; and when none of these gives a code the column keeps its value.
\<close>

theorem webhook_renewal_plan_code:
  assumes v: "verifyPaypalWebhookSignature e headers verifyToken verification = Inr True"
      and sid: "event_subscription_id event = Some sid"
      and sub: "find (\<lambda>s. paypal_subscription_id s = Some sid) (subscriptions d) = Some subRow"
      and pay: "isPaymentSuccessEvent (toUpperCase (str_or_empty (event_type event)))"
      and tx: "event_transaction_id event = Some tx"
      and new: "ledger_rows d ''paypal_subscription'' tx = []"
      and paid: "paid_at_iso (event_paid_at event) tPaid = Inr paid"
      and row: "select_subscription d (owner_id subRow) = Some row"
  shows "\<exists>r'. select_subscription
                (snd (paypalWebhook d headers event e verifyToken verification token fetchedSub tCreate now tPaid))
                (owner_id subRow) = Some r' \<and>
              plan_code r' =
                (let current = coalesce (synced_plan_code e token fetchedSub) (plan_code row);
                     usageTier = map_option tier_code
                       (pr_tier (computeMonthlyPriceDop (computeOwnerUsageCounts d (owner_id subRow))))
                 in if truthy (pending_plan_code row) then pending_plan_code row
                    else if truthy current then current
                    else if truthy usageTier then usageTier
                    else current)"
proof -
  define ownerId where "ownerId = owner_id subRow"
  define r where "r = (case event_resource event of None \<Rightarrow> empty_resource | Some r \<Rightarrow> r)"
  define et where "et = toUpperCase (str_or_empty (event_type event))"
  define d2 where "d2 = syncPlanCode (syncSubscriptionStatus d ownerId et r) ownerId e token fetchedSub"
  from syncs_select[OF row[folded ownerId_def], of et r e token fetchedSub]
  obtain row2 where row2: "select_subscription d2 ownerId = Some row2"
      "pending_plan_code row2 = pending_plan_code row"
      "plan_code row2 = coalesce (synced_plan_code e token fetchedSub) (plan_code row)"
    unfolding d2_def by blast
  have g: "getOrCreateOwnerSubscription d2 ownerId tCreate = (row2, d2)"
    using row2(1) by (rule getOrCreate_existing)
  define planCode where "planCode = js_or (pending_plan_code row2)
        (js_or (plan_code row2)
           (js_or (map_option tier_code
              (pr_tier (computeMonthlyPriceDop (computeOwnerUsageCounts d2 ownerId)))) None))"
  define f where "f = (\<lambda>s::subscription. s\<lparr>status := ''active'',
        plan_code := coalesce planCode (plan_code s),
        current_period_start :=
          Some (case current_period_end row2 of None \<Rightarrow> now | Some e \<Rightarrow> max now e),
        current_period_end :=
          Some ((case current_period_end row2 of None \<Rightarrow> now | Some e \<Rightarrow> max now e)
                + 30 * 24 * 60 * 60 * 1000),
        grace_period_end :=
          Some ((case current_period_end row2 of None \<Rightarrow> now | Some e \<Rightarrow> max now e)
                + 30 * 24 * 60 * 60 * 1000 + 5 * 24 * 60 * 60 * 1000)\<rparr>)"
  define h where "h = (\<lambda>s::subscription. s\<lparr>status := ''active'', billing_provider := Some ''paypal''\<rparr>)"
  have rn: "renewSubscription30Days d2 ownerId tCreate now =
              (Some (f row2), update_subscriptions ownerId f d2)"
    using g refl planCode_def f_def by (rule renew_unfold)
  have own: "\<And>s. owner_id (f s) = owner_id s" "\<And>s. owner_id (h s) = owner_id s"
    by (simp_all add: f_def h_def)
  have sel3: "select_subscription (update_subscriptions ownerId f d2) ownerId = Some (f row2)"
    using row2(1) own(1) by (rule select_update_subscriptions)
  have final: "snd (paypalWebhook d headers event e verifyToken verification token fetchedSub tCreate now tPaid) =
      update_subscriptions ownerId h
        ((update_subscriptions ownerId f d2)
           \<lparr>payments := payments (update_subscriptions ownerId f d2) @
              [webhookPaymentRow ownerId et sid tx event r paid]\<rparr>)"
    using webhook_payment_unfold[OF v sid sub pay tx new paid r_def et_def
        d2_def[unfolded ownerId_def], of tCreate now] rn
    by (simp add: ownerId_def h_def)
  have "select_subscription
          (snd (paypalWebhook d headers event e verifyToken verification token fetchedSub tCreate now tPaid)) ownerId =
        Some (h (f row2))"
    unfolding final
    using sel3 own(2) by (simp add: select_update_subscriptions select_subscription_payments)
  moreover have "plan_code (h (f row2)) = coalesce planCode (plan_code row2)"
    by (simp add: h_def f_def)
  moreover have "computeOwnerUsageCounts d2 ownerId = computeOwnerUsageCounts d ownerId"
    unfolding d2_def by (rule syncs_usage)
  ultimately show ?thesis
    using row2(2,3)
    by (auto simp add: planCode_def ownerId_def Let_def js_or_def coalesce_def truthy_def
        split: option.splits)
qed

text \<open>
  A payment event for the linked owner whose row has the pending plan \<open>basic_2\<close>: the
  renewal stores \<open>basic_2\<close>.
\<close>

theorem webhook_renewal_plan_code_witness:
  "\<exists>r'. select_subscription (snd (sample_delivery pending_db (sale_event ''I-1'' ''TX-1'') 1500)) 7 =
          Some r' \<and>
        plan_code r' = Some ''basic_2''"
proof -
  let ?row = "linked_subscription\<lparr>pending_plan_code := Some ''basic_2''\<rparr>"
  have sid: "event_subscription_id (sale_event ''I-1'' ''TX-1'') = Some ''I-1''"
    and tx: "event_transaction_id (sale_event ''I-1'' ''TX-1'') = Some ''TX-1''"
    and paid: "paid_at_iso (event_paid_at (sale_event ''I-1'' ''TX-1'')) 1500 = Inr 1500"
    by (simp_all add: event_subscription_id_def event_transaction_id_def event_paid_at_def
        sale_event_def empty_resource_def js_or_def truthy_def date_or_def paid_at_iso_def)
  have sub: "find (\<lambda>s. paypal_subscription_id s = Some ''I-1'') (subscriptions pending_db) = Some ?row"
    by (simp add: pending_db_def empty_db_def linked_subscription_def)
  have own: "owner_id ?row = 7"
    by (simp add: linked_subscription_def sample_subscription_def)
  have row: "select_subscription pending_db (owner_id ?row) = Some ?row"
    by (simp add: select_subscription_def pending_db_def empty_db_def linked_subscription_def
        sample_subscription_def)
  have pay: "isPaymentSuccessEvent (toUpperCase (str_or_empty (event_type (sale_event ''I-1'' ''TX-1''))))"
    by code_simp
  have new: "ledger_rows pending_db ''paypal_subscription'' ''TX-1'' = []"
    by (simp add: ledger_rows_def pending_db_def empty_db_def)
  have pend: "pending_plan_code ?row = Some ''basic_2''" by simp
  from webhook_renewal_plan_code[OF sample_verification sid sub pay tx new paid row,
      where token = "Inl failed_call" and fetchedSub = "Inl failed_call" and tCreate = 0
        and now = 1500]
  show ?thesis
    unfolding own sample_delivery_def by (simp add: Let_def truthy_def)
qed

text \<open>
  The claim as written fails on a payment event for owner 7 (two shops, so the usage tier
  is \<open>pro\<close>): without a pending plan the row on \<open>premium\<close> stays on \<open>premium\<close> instead of
  falling back to \<open>pro\<close>; and with the pending plan \<open>basic_2\<close> the pending column still
  holds \<open>basic_2\<close> after the renewal.
\<close>

theorem webhook_renewal_plan_code_counterexample:
  "map pending_plan_code (subscriptions linked_db) = [None] \<and>
   map_option tier_code (pr_tier (computeMonthlyPriceDop (computeOwnerUsageCounts linked_db 7))) =
     Some ''pro'' \<and>
   fst (sample_delivery linked_db (sale_event ''I-1'' ''TX-1'') 1500) =
     \<lparr>resp_status = 200, resp_body = Received (Some True)\<rparr> \<and>
   map plan_code (subscriptions (snd (sample_delivery linked_db (sale_event ''I-1'' ''TX-1'') 1500))) =
     [Some ''premium''] \<and>
   map pending_plan_code (subscriptions pending_db) = [Some ''basic_2''] \<and>
   map pending_plan_code
     (subscriptions (snd (sample_delivery pending_db (sale_event ''I-1'' ''TX-1'') 1500))) =
     [Some ''basic_2'']"
  by code_simp

subsection \<open>Replayed payments\<close>

lemma syncs_payments:
  "payments (syncPlanCode (syncSubscriptionStatus d ownerId et r) ownerId e token fetchedSub)
     = payments d"
  "period_boundaries (syncPlanCode (syncSubscriptionStatus d ownerId et r) ownerId e token fetchedSub)
     = period_boundaries d"
  using syncs_frame[of d ownerId et r]
    syncs_frame[of "syncSubscriptionStatus d ownerId et r" ownerId et r e token fetchedSub]
  by simp_all

lemma webhook_known_transaction_unfold:
  assumes v: "verifyPaypalWebhookSignature e headers verifyToken verification = Inr True"
      and sid: "event_subscription_id event = Some sid"
      and sub: "find (\<lambda>s. paypal_subscription_id s = Some sid) (subscriptions d) = Some subRow"
      and tx: "event_transaction_id event = Some tx"
      and known: "ledger_rows d ''paypal_subscription'' tx \<noteq> []"
      and r: "r = (case event_resource event of None \<Rightarrow> empty_resource | Some r \<Rightarrow> r)"
      and et: "et = toUpperCase (str_or_empty (event_type event))"
  shows "paypalWebhook d headers event e verifyToken verification token fetchedSub tCreate now tPaid =
          (\<lparr>resp_status = 200, resp_body = Received None\<rparr>,
           if isPaymentSuccessEvent et
           then syncPlanCode (syncSubscriptionStatus d (owner_id subRow) et r) (owner_id subRow)
                  e token fetchedSub
           else syncSubscriptionStatus d (owner_id subRow) et r)"
proof -
  have ex: "filter (\<lambda>p. pay_provider p = ''paypal_subscription'' \<and> provider_payment_id p = Some tx)
              (payments (syncPlanCode (syncSubscriptionStatus d (owner_id subRow) et r)
                 (owner_id subRow) e token fetchedSub)) \<noteq> []"
    using known by (simp add: syncs_payments ledger_rows_def)
  show ?thesis
    using v sid sub tx ex
    unfolding paypalWebhook_def event_subscription_id_def event_transaction_id_def r et
    by (simp add: Let_def)
qed

lemma webhook_skips_known_transaction:
  assumes tx: "event_transaction_id event = Some tx"
      and known: "ledger_rows d ''paypal_subscription'' tx \<noteq> []"
  shows "payments (snd (paypalWebhook d headers event e verifyToken verification token fetchedSub tCreate now tPaid)) =
           payments d \<and>
         period_boundaries (snd (paypalWebhook d headers event e verifyToken verification token fetchedSub tCreate now tPaid)) =
           period_boundaries d"
proof (cases "verifyPaypalWebhookSignature e headers verifyToken verification")
  case (Inl err)
  then show ?thesis by (simp add: paypalWebhook_def)
next
  case (Inr ok)
  show ?thesis
  proof (cases ok)
    case False
    with Inr show ?thesis by (simp add: paypalWebhook_def)
  next
    case True
    with Inr have v: "verifyPaypalWebhookSignature e headers verifyToken verification = Inr True" by simp
    show ?thesis
    proof (cases "event_subscription_id event")
      case None
      then show ?thesis using webhook_no_match[OF v] by simp
    next
      case (Some sid)
      show ?thesis
      proof (cases "find (\<lambda>s. paypal_subscription_id s = Some sid) (subscriptions d)")
        case None
        then have "\<forall>row\<in>set (subscriptions d). paypal_subscription_id row \<noteq> event_subscription_id event"
          using Some by (auto simp add: find_None_iff)
        then show ?thesis using webhook_no_match[OF v] by simp
      next
        case (Some subRow)
        from webhook_known_transaction_unfold[OF v \<open>event_subscription_id event = Some sid\<close> Some tx
            known refl refl]
        show ?thesis
          using syncs_payments syncs_frame by (simp split: if_splits)
      qed
    qed
  qed
qed

lemma webhook_renewing_delivery_ledger:
  assumes v: "verifyPaypalWebhookSignature e headers verifyToken verification = Inr True"
      and sid: "event_subscription_id event = Some sid"
      and sub: "find (\<lambda>s. paypal_subscription_id s = Some sid) (subscriptions d) = Some subRow"
      and pay: "isPaymentSuccessEvent (toUpperCase (str_or_empty (event_type event)))"
      and tx: "event_transaction_id event = Some tx"
      and new: "ledger_rows d ''paypal_subscription'' tx = []"
      and paid: "paid_at_iso (event_paid_at event) tPaid = Inr paid"
  shows "length (ledger_rows (snd (paypalWebhook d headers event e verifyToken verification token fetchedSub tCreate now tPaid))
           ''paypal_subscription'' tx) = 1"
proof -
  define r where "r = (case event_resource event of None \<Rightarrow> empty_resource | Some r \<Rightarrow> r)"
  define et where "et = toUpperCase (str_or_empty (event_type event))"
  define d2 where "d2 = syncPlanCode (syncSubscriptionStatus d (owner_id subRow) et r)
                      (owner_id subRow) e token fetchedSub"
  obtain row2 where "select_subscription d2 (owner_id subRow) = Some row2"
    using find_owner[OF sub] syncs_select[of d "owner_id subRow" _ et r e token fetchedSub]
    unfolding d2_def select_subscription_def by blast
  then have g: "getOrCreateOwnerSubscription d2 (owner_id subRow) tCreate = (row2, d2)"
    by (rule getOrCreate_existing)
  have pd: "payments (snd (renewSubscription30Days d2 (owner_id subRow) tCreate now)) = payments d"
    using renew_unfold[OF g refl refl refl, of now] syncs_payments(1)[of d "owner_id subRow" et r e token fetchedSub]
    by (simp add: update_subscriptions_frame d2_def)
  show ?thesis
    unfolding webhook_payment_unfold[OF v sid sub pay tx new paid r_def et_def d2_def]
    using new pd
    by (simp add: ledger_rows_def update_subscriptions_frame webhookPaymentRow_def Let_def)
qed

text \<open>
  The recurring rail is idempotent on the transaction id: once a verified payment event
  has renewed and written its ledger row, the ledger holds exactly one row for the pair,
  and any further delivery of the event leaves the payments and every period boundary as
  they are.
\<close>

lemma webhook_replay_idempotent:
  assumes v: "verifyPaypalWebhookSignature e headers verifyToken verification = Inr True"
      and sid: "event_subscription_id event = Some sid"
      and sub: "find (\<lambda>s. paypal_subscription_id s = Some sid) (subscriptions d) = Some subRow"
      and pay: "isPaymentSuccessEvent (toUpperCase (str_or_empty (event_type event)))"
      and tx: "event_transaction_id event = Some tx"
      and new: "ledger_rows d ''paypal_subscription'' tx = []"
      and paid: "paid_at_iso (event_paid_at event) tPaid = Inr paid"
      and d': "d' = snd (paypalWebhook d headers event e verifyToken verification token fetchedSub tCreate now tPaid)"
  shows "length (ledger_rows d' ''paypal_subscription'' tx) = 1 \<and>
         payments (snd (paypalWebhook d' headers2 event e2 verifyToken2 verification2 token2 fetchedSub2 t1 t2 t3)) = payments d' \<and>
         period_boundaries (snd (paypalWebhook d' headers2 event e2 verifyToken2 verification2 token2 fetchedSub2 t1 t2 t3)) =
           period_boundaries d'"
proof -
  have one: "length (ledger_rows d' ''paypal_subscription'' tx) = 1"
    unfolding d' using v sid sub pay tx new paid by (rule webhook_renewing_delivery_ledger)
  then have "ledger_rows d' ''paypal_subscription'' tx \<noteq> []" by auto
  with tx one show ?thesis
    using webhook_skips_known_transaction[of event tx d'] by blast
qed

text \<open>
  C1 fails on the one-off rail. Owner 7 captures order \<open>ORDER-1\<close>, and the provider answers
  with the completed capture \<open>CAP-1\<close>; the same capture is then processed once more. The
  order-capture path looks nothing up in the ledger: the second run inserts a second row
  for the pair \<open>(paypal, CAP-1)\<close> and moves the period end by another 30 days.
\<close>

theorem capture_replay_renews_twice:
  "length (ledger_rows (snd (sample_capture sample_db 100)) ''paypal'' ''CAP-1'') = 1 \<and>
   map current_period_end (subscriptions (snd (sample_capture sample_db 100))) =
     [Some 2592001000] \<and>
   fst (sample_capture (snd (sample_capture sample_db 100)) 200) =
     \<lparr>resp_status = 200,
      resp_body = CaptureSuccess (Some (sample_subscription\<lparr>
        plan_code := Some ''pro'',
        current_period_start := Some 2592001000,
        current_period_end := Some 5184001000,
        grace_period_end := Some 5616001000\<rparr>))\<rparr> \<and>
   length (ledger_rows (snd (sample_capture (snd (sample_capture sample_db 100)) 200))
             ''paypal'' ''CAP-1'') = 2 \<and>
   map current_period_end
     (subscriptions (snd (sample_capture (snd (sample_capture sample_db 100)) 200))) =
     [Some 5184001000]"
  by code_simp

subsection \<open>Create: the requested plan and the usage\<close>

text \<open>
  The second guard of the create step compares the usage with the limits of the tier that
  the usage itself selects, so it never rejects a request.
\<close>

lemma create_tier_guard_never_fires:
  assumes "\<not> pr_isOverLimit (computeMonthlyPriceDop u)"
  shows "\<not> (case map_option tier_limits (pr_tier (computeMonthlyPriceDop u)) of
             None \<Rightarrow> False
           | Some lim \<Rightarrow> shopCount u > shops lim \<or> professionalCount u > professionals lim)"
proof (cases "sel_tier (selectTierForUsage u)")
  case None
  with assms show ?thesis
    by (auto simp add: computeMonthlyPriceDop_def Let_def selectTierForUsage_def PLAN_TIERS_def
        accommodates_def split: if_splits)
next
  case (Some t)
  then have "find (\<lambda>t. accommodates t u) PLAN_TIERS = Some t" by (simp add: sel_tier_find)
  then have "accommodates t u" by (auto simp add: find_Some_iff)
  with Some show ?thesis
    by (simp add: computeMonthlyPriceDop_def Let_def accommodates_def)
qed

text \<open>
  C6 fails on the code. Owner 7 has two shops, and asks for \<open>basic_1\<close>, whose limit is one
  shop. The request is accepted, and the pending plan \<open>basic_1\<close> and the provider
  subscription id are stored.
\<close>

theorem create_accepts_plan_below_usage:
  "shopCount (computeOwnerUsageCounts sample_db 7) = 2 \<and>
   map_option (\<lambda>t. shops (tier_limits t)) (getTierForCode (Some ''basic_1'')) = Some 1 \<and>
   fst sample_create =
     \<lparr>resp_status = 200, resp_body = CreatedSubscription ''I-1'' ''https://approve''\<rparr> \<and>
   map pending_plan_code (subscriptions (snd sample_create)) = [Some ''basic_1''] \<and>
   map paypal_subscription_id (subscriptions (snd sample_create)) = [Some ''I-1'']"
  by code_simp

end
